theory Spec2Isabelle
  imports Main "HOL-Library.AList" "HOL-Library.Word" "HOL-Library.Signed_Division"
begin

unbundle bit_operations_syntax

section \<open>Data model of \<^verbatim>\<open>main.go\<close>\<close>

text \<open>
  An \<^verbatim>\<open>error\<close> value is represented by its message, the text that \<^verbatim>\<open>%s\<close> prints.
\<close>

type_synonym error = string

record Webhook =
  Type :: string
  URL :: string

record Domain =
  Name :: string
  Webhooks :: "Webhook list"

text \<open>
  The global sink list of \<^verbatim>\<open>Config\<close> is the field \<^verbatim>\<open>Webhooks\<close> in the source; a record
  field of that name belongs to \<^verbatim>\<open>Domain\<close> already, so here it is \<open>GlobalWebhooks\<close>.
  \<^verbatim>\<open>Interval\<close> is a Go \<^verbatim>\<open>int\<close>; only its comparison with 5 is modelled on \<open>int\<close>, the
  multiplication in \<^verbatim>\<open>main\<close> wraps at 64 bits.
\<close>

record Config =
  Interval :: int
  Domains :: "Domain list"
  GlobalWebhooks :: "Webhook list"

text \<open>
  A \<^verbatim>\<open>time.Time\<close> is an instant and a location. The instant is kept as the seconds
  since 1970-01-01T00:00:00Z and the nanoseconds within the second; of the location the
  program reads (through \<^verbatim>\<open>Time.String\<close>) the offset in force at the instant, in seconds east
  of UTC, and the zone abbreviation, which is empty for a zone fabricated from a bare
  offset. A time that comes from \<^verbatim>\<open>time.Parse\<close> or is the zero value has no monotonic
  clock reading.
\<close>

record Time =
  unix_sec :: int
  nsec :: nat
  zone_offset :: int
  zone_name :: string

record DomainInfo =
  Domain :: string
  RegistrarTag :: string
  NameServers :: "string list"
  CreationDate :: Time
  ExpiryDate :: Time
  UpdatedDate :: Time
  IPAddress :: string

text \<open>
  The result type of \<^verbatim>\<open>whoisparser.Parse\<close> (library whois-parser v1.24.16, outside the
  repository), reduced to what \<^verbatim>\<open>ParseWHOIS\<close> reads. \<^verbatim>\<open>Registrar\<close> is a pointer to a
  contact, which the library leaves nil when the answer names no registrar: \<open>None\<close>.
  \<^verbatim>\<open>Domain\<close> is a pointer that a successful parse always sets; its fields are kept
  under the names \<open>Domain_\<dots>\<close>. A nil slice and an empty one are both \<open>[]\<close>: \<^verbatim>\<open>%v\<close>
  prints them alike.
\<close>

record Contact =
  Contact_Name :: string

record WhoisInfo =
  Registrar :: "Contact option"
  Domain_NameServers :: "string list"
  Domain_CreatedDate :: string
  Domain_ExpirationDate :: string
  Domain_UpdatedDate :: string

datatype json =
    JString string
  | JNumber int
  | JArray "json list"
  | JObject "(string \<times> json) list"

text \<open>
  What a run does to the outside: lines on standard output, HTTP requests, sleeps.
  An \<open>HttpPost\<close> is one delivery attempt: \<^verbatim>\<open>SendWebhook\<close> has rendered the payload for
  the sink and goes on to build and send the request.
\<close>

datatype effect =
    Printf string
  | HttpPost string json
  | Sleep int

text \<open>
  The collaborators outside the repository. Calls that go to the network may answer
  differently each time they are made, so they take the position of the call: the index
  of the configured domain for WHOIS and DNS, the number of effects so far for HTTP.
  \<open>http_Post\<close> stands for \<^verbatim>\<open>http.NewRequest\<close> followed by \<^verbatim>\<open>client.Do\<close> with the
  JSON content type: an error of either is \<open>Inl\<close>, a response is its status code.
  \<open>read_Config\<close> stands for \<^verbatim>\<open>os.Open\<close> followed by the YAML decoder.
\<close>

record world =
  read_Config :: "string \<Rightarrow> error + Config"
  whois_Whois :: "nat \<Rightarrow> string \<Rightarrow> error + string"
  whoisparser_Parse :: "string \<Rightarrow> error + WhoisInfo"
  net_LookupIP :: "nat \<Rightarrow> string \<Rightarrow> error + string list"
  time_Parse :: "string \<Rightarrow> string \<Rightarrow> error + Time"
  http_Post :: "nat \<Rightarrow> string \<Rightarrow> json \<Rightarrow> error + int"

text \<open>A Go call either returns or panics; a panic is never recovered in this program.\<close>

datatype 'a result =
    Panic "effect list"
  | Return 'a

section \<open>\<^verbatim>\<open>LoadConfig\<close>\<close>

definition LoadConfig :: "world \<Rightarrow> string \<Rightarrow> error + Config" where
  "LoadConfig w filePath =
     (case read_Config w filePath of
        Inl err \<Rightarrow> Inl err
      | Inr config \<Rightarrow>
          Inr (if Interval config < 5 then config\<lparr>Interval := 5\<rparr> else config))"

section \<open>\<^verbatim>\<open>parseDate\<close>\<close>

definition RFC3339 :: string where
  "RFC3339 = ''2006-01-02T15:04:05Z07:00''"

definition formats :: "string list" where
  "formats =
     [RFC3339,
      ''2006-01-02T15:04:05Z'',
      ''2006-01-02 15:04:05'',
      ''2006-01-02'',
      ''02-Jan-2006'',
      ''02-Jan-2006 15:04:05 MST'']"

text \<open>
  The zero value \<^verbatim>\<open>time.Time{}\<close>: January 1 of year 1, 00:00:00 UTC, which is
  62135596800 seconds before 1970.
\<close>

definition zero_Time :: Time where
  "zero_Time = \<lparr>unix_sec = - 62135596800, nsec = 0, zone_offset = 0, zone_name = ''UTC''\<rparr>"

fun parseDate_loop :: "world \<Rightarrow> string list \<Rightarrow> string \<Rightarrow> Time" where
  "parseDate_loop w [] dateStr = zero_Time"
| "parseDate_loop w (format # rest) dateStr =
     (case time_Parse w format dateStr of
        Inr parsedDate \<Rightarrow> parsedDate
      | Inl err \<Rightarrow> parseDate_loop w rest dateStr)"

definition parseDate :: "world \<Rightarrow> string \<Rightarrow> Time" where
  "parseDate w dateStr = parseDate_loop w formats dateStr"

section \<open>Formatting\<close>

text \<open>Decimal digits of a natural number, as \<^verbatim>\<open>%d\<close> prints them.\<close>

fun digits :: "nat \<Rightarrow> string" where
  "digits n =
     (if n < 10 then [''0123456789'' ! n]
      else digits (n div 10) @ [''0123456789'' ! (n mod 10)])"

declare digits.simps [simp del]

definition show_int :: "int \<Rightarrow> string" where
  "show_int i = (if i < 0 then ''-'' @ digits (nat (- i)) else digits (nat i))"

text \<open>\<^verbatim>\<open>appendInt\<close> of package \<^verbatim>\<open>time\<close>: a sign, then the digits padded with zeros to a width.\<close>

definition zero_pad :: "nat \<Rightarrow> nat \<Rightarrow> string" where
  "zero_pad width n = replicate (width - length (digits n)) (CHR ''0'') @ digits n"

definition appendInt :: "int \<Rightarrow> nat \<Rightarrow> string" where
  "appendInt x width =
     (if x < 0 then ''-'' @ zero_pad width (nat (- x)) else zero_pad width (nat x))"

text \<open>The fraction \<^verbatim>\<open>.999999999\<close>: nothing when zero, else nine digits without trailing zeros.\<close>

definition trim_zeros :: "string \<Rightarrow> string" where
  "trim_zeros s = rev (dropWhile (\<lambda>c. c = CHR ''0'') (rev s))"

definition fraction :: "nat \<Rightarrow> string" where
  "fraction ns = (if ns = 0 then [] else ''.'' @ trim_zeros (zero_pad 9 ns))"

definition offset_hhmm :: "int \<Rightarrow> string" where
  "offset_hhmm off =
     (let zone = off sdiv 60
      in (if zone < 0 then ''-'' else ''+'')
         @ zero_pad 2 (nat (\<bar>zone\<bar> div 60)) @ zero_pad 2 (nat (\<bar>zone\<bar> mod 60)))"

text \<open>
  Year, month and day of a day number counted from 1970-01-01, in the proleptic Gregorian
  calendar that package \<^verbatim>\<open>time\<close> uses: the day is placed in its 400-year era (146097
  days, counted from a March 1), then in its year of the era and its day of that year.
\<close>

definition civil_from_days :: "int \<Rightarrow> int \<times> nat \<times> nat" where
  "civil_from_days days =
     (let z = days + 719468;
          era = z div 146097;
          day_of_era = z - era * 146097;
          year_of_era =
            (day_of_era - day_of_era div 1460 + day_of_era div 36524 - day_of_era div 146096)
              div 365;
          day_of_year =
            day_of_era - (365 * year_of_era + year_of_era div 4 - year_of_era div 100);
          march_month = (5 * day_of_year + 2) div 153;
          d = day_of_year - (153 * march_month + 2) div 5 + 1;
          m = (if march_month < 10 then march_month + 3 else march_month - 9);
          y = year_of_era + era * 400 + (if m \<le> 2 then 1 else 0)
      in (y, nat m, nat d))"

text \<open>
  \<^verbatim>\<open>Time.String\<close>: the layout \<^verbatim>\<open>2006-01-02 15:04:05.999999999 -0700 MST\<close>, the date and
  the clock read in the time's own zone; where the zone has no abbreviation the offset is
  printed in its place.
\<close>

definition Time_String :: "Time \<Rightarrow> string" where
  "Time_String t =
     (let local = unix_sec t + zone_offset t;
          clock = local mod 86400
      in (case civil_from_days (local div 86400) of
            (y, m, d) \<Rightarrow>
              appendInt y 4 @ ''-'' @ zero_pad 2 m @ ''-'' @ zero_pad 2 d
              @ '' '' @ zero_pad 2 (nat (clock div 3600))
              @ '':'' @ zero_pad 2 (nat (clock mod 3600 div 60))
              @ '':'' @ zero_pad 2 (nat (clock mod 60))
              @ fraction (nsec t)
              @ '' '' @ offset_hhmm (zone_offset t)
              @ '' '' @ (if zone_name t \<noteq> [] then zone_name t
                        else offset_hhmm (zone_offset t))))"

text \<open>\<^verbatim>\<open>%v\<close> of a \<^verbatim>\<open>[]string\<close>: the elements between brackets, separated by one space.\<close>

fun join_space :: "string list \<Rightarrow> string" where
  "join_space [] = []"
| "join_space [x] = x"
| "join_space (x # y # ys) = x @ '' '' @ join_space (y # ys)"

definition fmt_strings :: "string list \<Rightarrow> string" where
  "fmt_strings xs = ''['' @ join_space xs @ '']''"

text \<open>
  \<^verbatim>\<open>%v\<close> of a \<^verbatim>\<open>DomainInfo\<close> value: the fields in declaration order between braces,
  separated by one space; each \<^verbatim>\<open>time.Time\<close> field through its \<^verbatim>\<open>String\<close> method.
\<close>

definition fmt_DomainInfo :: "DomainInfo \<Rightarrow> string" where
  "fmt_DomainInfo info =
     ''{'' @ Domain info @ '' '' @ RegistrarTag info @ '' '' @ fmt_strings (NameServers info)
     @ '' '' @ Time_String (CreationDate info) @ '' '' @ Time_String (ExpiryDate info)
     @ '' '' @ Time_String (UpdatedDate info) @ '' '' @ IPAddress info @ ''}''"

section \<open>\<^verbatim>\<open>ParseWHOIS\<close> and \<^verbatim>\<open>ResolveIP\<close>\<close>

text \<open>
  \<^verbatim>\<open>result.Registrar.Name\<close> is the first field read after the parse: where the registrar
  pointer is nil, the read panics (a nil pointer dereference), before anything else is
  done. The panic carries no effects of its own.
\<close>

definition ParseWHOIS :: "world \<Rightarrow> string \<Rightarrow> string \<Rightarrow> (error + DomainInfo) result" where
  "ParseWHOIS w domain response =
     (case whoisparser_Parse w response of
        Inl err \<Rightarrow> Return (Inl err)
      | Inr result \<Rightarrow>
          (case Registrar result of
             None \<Rightarrow> Panic []
           | Some registrar \<Rightarrow>
               Return (Inr
                 \<lparr>Domain = domain,
                  RegistrarTag =
                    (if Contact_Name registrar \<noteq> [] then Contact_Name registrar else []),
                  NameServers =
                    (if Domain_NameServers result \<noteq> [] then Domain_NameServers result else []),
                  CreationDate =
                    (if Domain_CreatedDate result \<noteq> []
                     then parseDate w (Domain_CreatedDate result) else zero_Time),
                  ExpiryDate =
                    (if Domain_ExpirationDate result \<noteq> []
                     then parseDate w (Domain_ExpirationDate result) else zero_Time),
                  UpdatedDate =
                    (if Domain_UpdatedDate result \<noteq> []
                     then parseDate w (Domain_UpdatedDate result) else zero_Time),
                  IPAddress = []\<rparr>)))"

text \<open>The addresses arrive printed (\<^verbatim>\<open>ips[0].String()\<close>); \<open>i\<close> is the position of the call.\<close>

definition ResolveIP :: "world \<Rightarrow> nat \<Rightarrow> string \<Rightarrow> error + string" where
  "ResolveIP w i domain =
     (case net_LookupIP w i domain of
        Inl err \<Rightarrow> Inl err
      | Inr ips \<Rightarrow>
          (case ips of
             [] \<Rightarrow> Inl (''no IP addresses found for domain '' @ domain)
           | ip # _ \<Rightarrow> Inr ip))"

section \<open>\<^verbatim>\<open>HashDomainInfo\<close>\<close>

text \<open>
  \<^verbatim>\<open>crypto/sha256\<close> is the SHA-256 of FIPS 180-4, written here on 32-bit words held as
  natural numbers below \<open>2 ^ 32\<close>, the wrap-around of each addition written out. The round
  constants and the initial hash value are written in decimal.
\<close>

definition rotr :: "nat \<Rightarrow> nat \<Rightarrow> nat" where
  "rotr n x = x div 2 ^ n + (x mod 2 ^ n) * 2 ^ (32 - n)"

definition add32 :: "nat \<Rightarrow> nat \<Rightarrow> nat" where
  "add32 x y = (x + y) mod 4294967296"

definition K256 :: "nat list" where
  "K256 = [
   1116352408, 1899447441, 3049323471, 3921009573, 961987163, 1508970993, 2453635748, 2870763221,
   3624381080, 310598401, 607225278, 1426881987, 1925078388, 2162078206, 2614888103, 3248222580,
   3835390401, 4022224774, 264347078, 604807628, 770255983, 1249150122, 1555081692, 1996064986,
   2554220882, 2821834349, 2952996808, 3210313671, 3336571891, 3584528711, 113926993, 338241895,
   666307205, 773529912, 1294757372, 1396182291, 1695183700, 1986661051, 2177026350, 2456956037,
   2730485921, 2820302411, 3259730800, 3345764771, 3516065817, 3600352804, 4094571909, 275423344,
   430227734, 506948616, 659060556, 883997877, 958139571, 1322822218, 1537002063, 1747873779,
   1955562222, 2024104815, 2227730452, 2361852424, 2428436474, 2756734187, 3204031479, 3329325298]"

definition H0 :: "nat list" where
  "H0 = [1779033703, 3144134277, 1013904242, 2773480762, 1359893119, 2600822924, 528734635, 1541459225]"

definition ssig0 :: "nat \<Rightarrow> nat" where "ssig0 x = (rotr 7 x XOR rotr 18 x) XOR (x div 2 ^ 3)"
definition ssig1 :: "nat \<Rightarrow> nat" where "ssig1 x = (rotr 17 x XOR rotr 19 x) XOR (x div 2 ^ 10)"
definition bsig0 :: "nat \<Rightarrow> nat" where "bsig0 x = (rotr 2 x XOR rotr 13 x) XOR rotr 22 x"
definition bsig1 :: "nat \<Rightarrow> nat" where "bsig1 x = (rotr 6 x XOR rotr 11 x) XOR rotr 25 x"
definition ch :: "nat \<Rightarrow> nat \<Rightarrow> nat \<Rightarrow> nat" where "ch x y z = (x AND y) XOR ((4294967295 - x) AND z)"
definition maj :: "nat \<Rightarrow> nat \<Rightarrow> nat \<Rightarrow> nat" where "maj x y z = ((x AND y) XOR (x AND z)) XOR (y AND z)"

definition sched_word :: "nat \<Rightarrow> nat \<Rightarrow> nat \<Rightarrow> nat \<Rightarrow> nat" where
  "sched_word w2 w7 w15 w16 = add32 (add32 (add32 (ssig1 w2) w7) (ssig0 w15)) w16"

fun schedule :: "nat list \<Rightarrow> nat list \<Rightarrow> nat list" where
  "schedule [] ws = rev ws"
| "schedule (k # ks) ws = schedule ks (sched_word (ws ! 1) (ws ! 6) (ws ! 14) (ws ! 15) # ws)"

definition T1 :: "nat \<Rightarrow> nat \<Rightarrow> nat \<Rightarrow> nat \<Rightarrow> nat \<Rightarrow> nat \<Rightarrow> nat" where
  "T1 e f g h k w = add32 (add32 (add32 (add32 h (bsig1 e)) (ch e f g)) k) w"
definition T2 :: "nat \<Rightarrow> nat \<Rightarrow> nat \<Rightarrow> nat" where
  "T2 a b c = add32 (bsig0 a) (maj a b c)"

definition step :: "nat \<Rightarrow> nat \<Rightarrow> nat list \<Rightarrow> nat list" where
  "step t1 t2 s = [add32 t1 t2, s ! 0, s ! 1, s ! 2, add32 (s ! 3) t1, s ! 4, s ! 5, s ! 6]"

fun rounds :: "nat list \<Rightarrow> nat list \<Rightarrow> nat list \<Rightarrow> nat list" where
  "rounds (k # ks) (w # ws) s =
     rounds ks ws (step (T1 (s ! 4) (s ! 5) (s ! 6) (s ! 7) k w) (T2 (s ! 0) (s ! 1) (s ! 2)) s)"
| "rounds ks ws s = s"

definition be32 :: "nat \<Rightarrow> nat \<Rightarrow> nat \<Rightarrow> nat \<Rightarrow> nat" where
  "be32 a b c d = ((a * 256 + b) * 256 + c) * 256 + d"

fun words_of :: "nat list \<Rightarrow> nat list" where
  "words_of (a # b # c # d # rest) = be32 a b c d # words_of rest"
| "words_of _ = []"

definition compress :: "nat list \<Rightarrow> nat list \<Rightarrow> nat list" where
  "compress hs block = map2 add32 hs (rounds K256 (schedule (drop 16 K256) (rev (words_of block))) hs)"

fun blocks :: "nat list \<Rightarrow> nat list \<Rightarrow> nat list" where
  "blocks hs [] = hs"
| "blocks hs (b # bs) = blocks (compress hs (take 64 (b # bs))) (drop 64 (b # bs))"

definition be_bytes :: "nat \<Rightarrow> nat \<Rightarrow> nat list" where
  "be_bytes n x = map (\<lambda>i. (x div 256 ^ (n - 1 - i)) mod 256) [0..<n]"

definition pad :: "nat list \<Rightarrow> nat list" where
  "pad m = m @ [128] @ replicate ((119 - length m mod 64) mod 64) 0 @ be_bytes 8 (8 * length m)"

definition Sum256 :: "nat list \<Rightarrow> nat list" where
  "Sum256 m = concat (map (be_bytes 4) (blocks H0 (pad m)))"

text \<open>\<^verbatim>\<open>%x\<close> of a byte array: two lower-case hexadecimal digits for each byte.\<close>

definition hex_byte :: "nat \<Rightarrow> string" where
  "hex_byte b = [''0123456789abcdef'' ! (b div 16 mod 16), ''0123456789abcdef'' ! (b mod 16)]"

definition fmt_hex :: "nat list \<Rightarrow> string" where
  "fmt_hex bs = concat (map hex_byte bs)"

definition HashDomainInfo :: "DomainInfo \<Rightarrow> string" where
  "HashDomainInfo info = fmt_hex (Sum256 (map of_char (fmt_DomainInfo info)))"

section \<open>\<^verbatim>\<open>SendWebhook\<close>\<close>

definition nl :: string where
  "nl = [CHR 0x0A]"

text \<open>
  The payloads are kept as JSON values (what \<^verbatim>\<open>json.Marshal\<close> encodes, the keys of a
  map in the sorted order it writes them); marshalling these values cannot fail.
\<close>

definition pagerduty_payload :: "Webhook \<Rightarrow> string \<Rightarrow> json" where
  "pagerduty_payload webhook message =
     JObject [(''event_action'', JString ''trigger''),
              (''payload'', JObject [(''severity'', JString ''info''),
                                     (''source'', JString ''domain-monitor''),
                                     (''summary'', JString message)]),
              (''routing_key'', JString (URL webhook))]"

definition teams_payload :: "string \<Rightarrow> json" where
  "teams_payload message = JObject [(''text'', JString message)]"

definition discord_description :: "DomainInfo \<Rightarrow> string" where
  "discord_description domainInfo =
     ''Details: '' @ nl @ ''- Domain: '' @ Domain domainInfo
     @ nl @ ''- Registrar: '' @ RegistrarTag domainInfo
     @ nl @ ''- Name Servers: '' @ fmt_strings (NameServers domainInfo)
     @ nl @ ''- Creation Date: '' @ Time_String (CreationDate domainInfo)
     @ nl @ ''- Expiry Date: '' @ Time_String (ExpiryDate domainInfo)
     @ nl @ ''- Updated Date: '' @ Time_String (UpdatedDate domainInfo)
     @ nl @ ''- IP Address: '' @ IPAddress domainInfo"

definition discord_payload :: "string \<Rightarrow> DomainInfo \<Rightarrow> json" where
  "discord_payload message domainInfo =
     JObject [(''embeds'',
               JArray [JObject [(''color'', JNumber 3447003),
                                (''description'', JString (discord_description domainInfo)),
                                (''title'', JString message)]])]"

text \<open>The part of \<^verbatim>\<open>SendWebhook\<close> after the \<^verbatim>\<open>switch\<close>: the request and the status check.\<close>

definition post_payload ::
  "world \<Rightarrow> Webhook \<Rightarrow> json \<Rightarrow> effect list \<Rightarrow> error option \<times> effect list" where
  "post_payload w webhook payload tr =
     (case http_Post w (length tr) (URL webhook) payload of
        Inl err \<Rightarrow> (Some err, tr @ [HttpPost (URL webhook) payload])
      | Inr status \<Rightarrow>
          (if status \<ge> 300
           then (Some (''received non-2xx response status: '' @ show_int status),
                 tr @ [HttpPost (URL webhook) payload])
           else (None, tr @ [HttpPost (URL webhook) payload])))"

text \<open>
  \<^verbatim>\<open>domainInfo\<close> is a pointer: \<open>None\<close> is nil. The discord case reads its fields while
  building the arguments of \<^verbatim>\<open>Sprintf\<close>, so a nil pointer panics there.
\<close>

definition SendWebhook ::
  "world \<Rightarrow> Webhook \<Rightarrow> string \<Rightarrow> DomainInfo option \<Rightarrow> effect list
     \<Rightarrow> (error option \<times> effect list) result" where
  "SendWebhook w webhook message domainInfo tr =
     (if Type webhook = ''pagerduty''
        then Return (post_payload w webhook (pagerduty_payload webhook message) tr)
      else if Type webhook = ''teams''
        then Return (post_payload w webhook (teams_payload message) tr)
      else if Type webhook = ''discord''
        then (case domainInfo of
                None \<Rightarrow> Panic tr
              | Some info \<Rightarrow> Return (post_payload w webhook (discord_payload message info) tr))
      else Return (Some (''unsupported webhook type: '' @ Type webhook), tr))"

section \<open>\<^verbatim>\<open>MonitorDomains\<close>\<close>

text \<open>
  The loop \<^verbatim>\<open>for _, webhook := range ... { if err := SendWebhook(...); err != nil { Printf } }\<close>,
  which the source writes out six times.
\<close>

fun send_all ::
  "world \<Rightarrow> string \<Rightarrow> Webhook list \<Rightarrow> string \<Rightarrow> DomainInfo option \<Rightarrow> effect list
     \<Rightarrow> effect list result" where
  "send_all w name [] message domainInfo tr = Return tr"
| "send_all w name (webhook # rest) message domainInfo tr =
     (case SendWebhook w webhook message domainInfo tr of
        Panic t \<Rightarrow> Panic t
      | Return (None, tr') \<Rightarrow> send_all w name rest message domainInfo tr'
      | Return (Some err, tr') \<Rightarrow>
          send_all w name rest message domainInfo
            (tr' @ [Printf (''Error sending webhook for '' @ name @ '': '' @ err @ nl)]))"

text \<open>
  A Go map is kept as an association list with distinct keys; the order of the list is
  the order in which \<^verbatim>\<open>range\<close> visits the keys, which Go leaves open.
\<close>

type_synonym StateMap = "(string \<times> string) list"

record state =
  previousStates :: StateMap
  currentStates :: StateMap
  trace :: "effect list"

definition dispatch ::
  "world \<Rightarrow> Config \<Rightarrow> Domain \<Rightarrow> string \<Rightarrow> DomainInfo \<Rightarrow> state \<Rightarrow> state result" where
  "dispatch w config domain message domainInfo st =
     (case send_all w (Name domain) (Webhooks domain) message (Some domainInfo) (trace st) of
        Panic t \<Rightarrow> Panic t
      | Return tr \<Rightarrow>
          (case send_all w (Name domain) (GlobalWebhooks config) message (Some domainInfo) tr of
             Panic t \<Rightarrow> Panic t
           | Return tr' \<Rightarrow> Return (st\<lparr>trace := tr'\<rparr>)))"

text \<open>The body of the first loop, for the domain at position \<open>i\<close> of \<^verbatim>\<open>config.Domains\<close>.\<close>

definition monitor_domain :: "world \<Rightarrow> Config \<Rightarrow> nat \<Rightarrow> Domain \<Rightarrow> state \<Rightarrow> state result" where
  "monitor_domain w config i domain st =
     (case whois_Whois w i (Name domain) of
        Inl err \<Rightarrow>
          Return (st\<lparr>trace := trace st @
            [Printf (''Error fetching WHOIS information for '' @ Name domain @ '': '' @ err @ nl)]\<rparr>)
      | Inr response \<Rightarrow>
     (case ParseWHOIS w (Name domain) response of
        Panic t \<Rightarrow> Panic (trace st @ t)
      | Return (Inl err) \<Rightarrow>
          Return (st\<lparr>trace := trace st @
            [Printf (''Error parsing WHOIS information for '' @ Name domain @ '': '' @ err @ nl)]\<rparr>)
      | Return (Inr parsed) \<Rightarrow>
     (case ResolveIP w i (Name domain) of
        Inl err \<Rightarrow>
          Return (st\<lparr>trace := trace st @
            [Printf (''Error resolving IP address for '' @ Name domain @ '': '' @ err @ nl)]\<rparr>)
      | Inr ip \<Rightarrow>
          (let domainInfo = parsed\<lparr>IPAddress := ip\<rparr>;
               hash = HashDomainInfo domainInfo;
               st' = st\<lparr>currentStates := AList.update (Name domain) hash (currentStates st)\<rparr>
           in (case map_of (previousStates st') (Name domain) of
                 None \<Rightarrow>
                   dispatch w config domain
                     (''Monitoring enabled for domain: '' @ Name domain) domainInfo st'
               | Some previousHash \<Rightarrow>
                   (if previousHash \<noteq> hash
                    then dispatch w config domain
                           (''Domain information changed for: '' @ Name domain) domainInfo st'
                    else Return st'))))))"

fun domains_loop :: "world \<Rightarrow> Config \<Rightarrow> nat \<Rightarrow> Domain list \<Rightarrow> state \<Rightarrow> state result" where
  "domains_loop w config i [] st = Return st"
| "domains_loop w config i (domain # rest) st =
     (case monitor_domain w config i domain st of
        Panic t \<Rightarrow> Panic t
      | Return st' \<Rightarrow> domains_loop w config (Suc i) rest st')"

text \<open>
  The inner loop of the second part: the sinks of every configured domain of that name.
\<close>

fun finished_domain_sinks ::
  "world \<Rightarrow> string \<Rightarrow> string \<Rightarrow> Domain list \<Rightarrow> effect list \<Rightarrow> effect list result" where
  "finished_domain_sinks w domainName message [] tr = Return tr"
| "finished_domain_sinks w domainName message (domain # rest) tr =
     (if Name domain = domainName
      then (case send_all w domainName (Webhooks domain) message None tr of
              Panic t \<Rightarrow> Panic t
            | Return tr' \<Rightarrow> finished_domain_sinks w domainName message rest tr')
      else finished_domain_sinks w domainName message rest tr)"

definition finished_domain :: "world \<Rightarrow> Config \<Rightarrow> string \<Rightarrow> state \<Rightarrow> state result" where
  "finished_domain w config domainName st =
     (case map_of (currentStates st) domainName of
        Some h \<Rightarrow> Return st
      | None \<Rightarrow>
          (let message = ''Monitoring finished for domain: '' @ domainName
           in (case finished_domain_sinks w domainName message (Domains config) (trace st) of
                 Panic t \<Rightarrow> Panic t
               | Return tr \<Rightarrow>
                   (case send_all w domainName (GlobalWebhooks config) message None tr of
                      Panic t \<Rightarrow> Panic t
                    | Return tr' \<Rightarrow> Return (st\<lparr>trace := tr'\<rparr>)))))"

fun finished_loop :: "world \<Rightarrow> Config \<Rightarrow> string list \<Rightarrow> state \<Rightarrow> state result" where
  "finished_loop w config [] st = Return st"
| "finished_loop w config (domainName # rest) st =
     (case finished_domain w config domainName st of
        Panic t \<Rightarrow> Panic t
      | Return st' \<Rightarrow> finished_loop w config rest st')"

text \<open>
  \<^verbatim>\<open>MonitorDomains\<close> returns \<open>currentStates\<close> of the final state; the final state also
  shows what the run printed and sent and the caller's map as the run leaves it.
\<close>

definition MonitorDomains :: "world \<Rightarrow> Config \<Rightarrow> StateMap \<Rightarrow> state result" where
  "MonitorDomains w config previous =
     (case domains_loop w config 0 (Domains config)
             \<lparr>previousStates = previous, currentStates = [], trace = []\<rparr> of
        Panic t \<Rightarrow> Panic t
      | Return st \<Rightarrow> finished_loop w config (map fst (previousStates st)) st)"

section \<open>\<^verbatim>\<open>main\<close>\<close>

text \<open>
  \<^verbatim>\<open>time.Duration(config.Interval) * time.Minute\<close> in nanoseconds, a product of 64-bit
  signed integers.
\<close>

definition sleep_duration :: "int \<Rightarrow> int" where
  "sleep_duration interval = sint ((word_of_int interval :: 64 word) * 60000000000)"

text \<open>
  How a run of \<^verbatim>\<open>main\<close> stands after at most \<open>fuel\<close> cycles: it has returned, in the
  cycle of that number (counted from 0); it has crashed in a panic; or it is still
  looping, with the map it carries. \<open>W n\<close> is the outside world during cycle \<open>n\<close>.
\<close>

datatype run =
    Exited nat "effect list"
  | Crashed nat "effect list"
  | Running StateMap "effect list"

fun main_loop :: "(nat \<Rightarrow> world) \<Rightarrow> nat \<Rightarrow> nat \<Rightarrow> StateMap \<Rightarrow> effect list \<Rightarrow> run" where
  "main_loop W 0 n previous tr = Running previous tr"
| "main_loop W (Suc fuel) n previous tr =
     (case LoadConfig (W n) ''config.yaml'' of
        Inl err \<Rightarrow> Exited n (tr @ [Printf (''Error loading config: '' @ err @ nl)])
      | Inr config \<Rightarrow>
          (case MonitorDomains (W n) config previous of
             Panic t \<Rightarrow> Crashed n (tr @ t)
           | Return st \<Rightarrow>
               main_loop W fuel (Suc n) (currentStates st)
                 (tr @ trace st @ [Sleep (sleep_duration (Interval config))])))"

definition main :: "(nat \<Rightarrow> world) \<Rightarrow> nat \<Rightarrow> run" where
  "main W fuel = main_loop W fuel 0 [] []"

section \<open>Notions used to state the properties\<close>

text \<open>The delivery attempts of a trace, in order: URL and payload of each.\<close>

fun posts :: "effect list \<Rightarrow> (string \<times> json) list" where
  "posts [] = []"
| "posts (HttpPost url payload # rest) = (url, payload) # posts rest"
| "posts (Printf line # rest) = posts rest"
| "posts (Sleep d # rest) = posts rest"

text \<open>
  The payload that the dispatcher renders for a sink kind (section 4.3 of the
  specification); none for an unknown kind, and none for a discord sink without an
  observation.
\<close>

definition payload_for :: "Webhook \<Rightarrow> string \<Rightarrow> DomainInfo option \<Rightarrow> json option" where
  "payload_for sink message info =
     (if Type sink = ''pagerduty'' then Some (pagerduty_payload sink message)
      else if Type sink = ''teams'' then Some (teams_payload message)
      else if Type sink = ''discord'' then map_option (discord_payload message) info
      else None)"

fun expected_posts :: "string \<Rightarrow> DomainInfo option \<Rightarrow> Webhook list \<Rightarrow> (string \<times> json) list" where
  "expected_posts message info [] = []"
| "expected_posts message info (sink # rest) =
     (case payload_for sink message info of
        None \<Rightarrow> expected_posts message info rest
      | Some payload \<Rightarrow> (URL sink, payload) # expected_posts message info rest)"

text \<open>
  The observation of the domain at position \<open>i\<close> of the configuration: present when the
  WHOIS fetch, the WHOIS parse and the DNS resolution all succeed.
\<close>

definition observe :: "world \<Rightarrow> nat \<Rightarrow> Domain \<Rightarrow> DomainInfo option" where
  "observe w i domain =
     (case whois_Whois w i (Name domain) of
        Inl err \<Rightarrow> None
      | Inr response \<Rightarrow>
          (case ParseWHOIS w (Name domain) response of
             Panic t \<Rightarrow> None
           | Return (Inl err) \<Rightarrow> None
           | Return (Inr parsed) \<Rightarrow>
               (case ResolveIP w i (Name domain) of
                  Inl err \<Rightarrow> None
                | Inr ip \<Rightarrow> Some (parsed\<lparr>IPAddress := ip\<rparr>))))"

text \<open>
  The domain at position \<open>i\<close> gets a WHOIS answer that parses to a result without
  registrar: \<^verbatim>\<open>ParseWHOIS\<close> panics there. And: this happens at no position of a list of
  domains that starts at position \<open>i\<close>.
\<close>

definition registrar_missing :: "world \<Rightarrow> nat \<Rightarrow> Domain \<Rightarrow> bool" where
  "registrar_missing w i domain =
     (case whois_Whois w i (Name domain) of
        Inl err \<Rightarrow> False
      | Inr response \<Rightarrow>
          (case whoisparser_Parse w response of
             Inl err \<Rightarrow> False
           | Inr result \<Rightarrow> Registrar result = None))"

fun registrars_present :: "world \<Rightarrow> nat \<Rightarrow> Domain list \<Rightarrow> bool" where
  "registrars_present w i [] = True"
| "registrars_present w i (domain # rest) =
     (\<not> registrar_missing w i domain \<and> registrars_present w (Suc i) rest)"

text \<open>
  What a timestamp text denotes (section 4.1 of the specification): the time that the
  first layout of the list to parse the text gives; nothing (the unknown sentinel) for an
  absent text and for a text that no layout parses.
\<close>

definition denotes :: "world \<Rightarrow> string \<Rightarrow> Time option" where
  "denotes w text =
     (if text = [] then None
      else (case List.find (\<lambda>f. \<not> isl (time_Parse w f text)) formats of
              None \<Rightarrow> None
            | Some f \<Rightarrow> Some (projr (time_Parse w f text))))"

text \<open>The value a timestamp text normalizes to: the unknown sentinel is the zero time.\<close>

definition normalized :: "world \<Rightarrow> string \<Rightarrow> Time" where
  "normalized w text = (case denotes w text of None \<Rightarrow> zero_Time | Some t \<Rightarrow> t)"

text \<open>Name and fingerprint of every observed occurrence, in configuration order.\<close>

fun observed :: "world \<Rightarrow> nat \<Rightarrow> Domain list \<Rightarrow> (string \<times> string) list" where
  "observed w i [] = []"
| "observed w i (domain # rest) =
     (case observe w i domain of
        None \<Rightarrow> observed w (Suc i) rest
      | Some info \<Rightarrow> (Name domain, HashDomainInfo info) # observed w (Suc i) rest)"

text \<open>The transition events of section 3 of the specification, with the silent outcome.\<close>

datatype kind = Enabled | Changed | Unchanged | Removed

record event =
  ev_kind :: kind
  ev_domain :: string
  ev_info :: "DomainInfo option"
  ev_sinks :: "Webhook list"

definition classify :: "StateMap \<Rightarrow> string \<Rightarrow> string \<Rightarrow> kind" where
  "classify previous name hash =
     (case map_of previous name of
        None \<Rightarrow> Enabled
      | Some previousHash \<Rightarrow> if previousHash \<noteq> hash then Changed else Unchanged)"

fun current_events :: "world \<Rightarrow> StateMap \<Rightarrow> nat \<Rightarrow> Domain list \<Rightarrow> event list" where
  "current_events w previous i [] = []"
| "current_events w previous i (domain # rest) =
     (case observe w i domain of
        None \<Rightarrow> current_events w previous (Suc i) rest
      | Some info \<Rightarrow>
          \<lparr>ev_kind = classify previous (Name domain) (HashDomainInfo info),
           ev_domain = Name domain, ev_info = Some info, ev_sinks = Webhooks domain\<rparr>
          # current_events w previous (Suc i) rest)"

text \<open>
  The sinks configured for a name: those of every configured domain of that name.
\<close>

definition sinks_of :: "Config \<Rightarrow> string \<Rightarrow> Webhook list" where
  "sinks_of config name = concat (map Webhooks (filter (\<lambda>d. Name d = name) (Domains config)))"

definition removed_event :: "Config \<Rightarrow> string \<Rightarrow> event" where
  "removed_event config name =
     \<lparr>ev_kind = Removed, ev_domain = name, ev_info = None, ev_sinks = sinks_of config name\<rparr>"

definition removed_events :: "Config \<Rightarrow> string list \<Rightarrow> string list \<Rightarrow> event list" where
  "removed_events config keys seen =
     map (removed_event config) (filter (\<lambda>k. k \<notin> set seen) keys)"

definition events :: "world \<Rightarrow> Config \<Rightarrow> StateMap \<Rightarrow> event list" where
  "events w config previous =
     current_events w previous 0 (Domains config)
     @ removed_events config (map fst previous) (map fst (observed w 0 (Domains config)))"

definition summary :: "kind \<Rightarrow> string \<Rightarrow> string" where
  "summary k name =
     (case k of
        Enabled \<Rightarrow> ''Monitoring enabled for domain: '' @ name
      | Changed \<Rightarrow> ''Domain information changed for: '' @ name
      | Removed \<Rightarrow> ''Monitoring finished for domain: '' @ name
      | Unchanged \<Rightarrow> [])"

text \<open>
  The deliveries of an event: to the domain's own sinks, then to the global ones; none
  for the silent outcome.
\<close>

definition event_posts :: "Config \<Rightarrow> event \<Rightarrow> (string \<times> json) list" where
  "event_posts config e =
     (if ev_kind e = Unchanged then []
      else expected_posts (summary (ev_kind e) (ev_domain e)) (ev_info e)
             (ev_sinks e @ GlobalWebhooks config))"

text \<open>What a call delivered, whether it returned or panicked.\<close>

definition deliveries :: "state result \<Rightarrow> (string \<times> json) list" where
  "deliveries r = (case r of Panic t \<Rightarrow> posts t | Return st \<Rightarrow> posts (trace st))"

section \<open>Example worlds and inputs\<close>

text \<open>
  A world in which one date layout parses one date string (to midnight UTC of
  2020-05-06), and nothing else works.
\<close>

definition date_world :: world where
  "date_world =
     \<lparr>read_Config = (\<lambda>p. Inl ''no such file''),
      whois_Whois = (\<lambda>i n. Inl ''down''),
      whoisparser_Parse = (\<lambda>r. Inl ''bad''),
      net_LookupIP = (\<lambda>i n. Inl ''down''),
      time_Parse = (\<lambda>f s. if f = ''2006-01-02'' \<and> s = ''2020-05-06''
                           then Inr (zero_Time\<lparr>unix_sec := 1588723200\<rparr>)
                           else Inl ''cannot parse''),
      http_Post = (\<lambda>k u p. Inr 200)\<rparr>"

text \<open>
  A world in which WHOIS answers for every name but \<open>down.example\<close>, the parser
  understands two raw answers that differ in the text of the creation date only, the
  resolver answers by position, two date layouts give the same time (midnight UTC of
  1995-08-14), and one endpoint refuses connections.
\<close>

definition example_whois :: "string \<Rightarrow> WhoisInfo" where
  "example_whois created =
     \<lparr>Registrar = Some \<lparr>Contact_Name = ''Example Registrar''\<rparr>,
      Domain_NameServers = [''ns1.example.net'', ''ns2.example.net''],
      Domain_CreatedDate = created,
      Domain_ExpirationDate = [],
      Domain_UpdatedDate = ''soon''\<rparr>"

definition example_world :: world where
  "example_world =
     \<lparr>read_Config = (\<lambda>p. Inl ''open config.yaml: no such file or directory''),
      whois_Whois = (\<lambda>i name. if name = ''down.example'' then Inl ''i/o timeout'' else Inr ''raw''),
      whoisparser_Parse =
        (\<lambda>r. if r = ''raw'' then Inr (example_whois ''1995-08-14'')
             else if r = ''raw, long date'' then Inr (example_whois ''1995-08-14 00:00:00'')
             else Inl ''whoisparser: domain whois data is invalid''),
      net_LookupIP = (\<lambda>i name. Inr [if i = 0 then ''192.0.2.1'' else ''192.0.2.2'']),
      time_Parse =
        (\<lambda>f s. if (f = ''2006-01-02'' \<and> s = ''1995-08-14'')
                   \<or> (f = ''2006-01-02 15:04:05'' \<and> s = ''1995-08-14 00:00:00'')
                then Inr (zero_Time\<lparr>unix_sec := 808358400\<rparr>)
                else Inl ''cannot parse''),
      http_Post =
        (\<lambda>k url payload. if url = ''https://hooks.example/broken''
                          then Inl ''connection refused'' else Inr 204)\<rparr>"

definition example_info :: "string \<Rightarrow> string \<Rightarrow> DomainInfo" where
  "example_info name ip =
     \<lparr>Domain = name,
      RegistrarTag = ''Example Registrar'',
      NameServers = [''ns1.example.net'', ''ns2.example.net''],
      CreationDate = zero_Time\<lparr>unix_sec := 808358400\<rparr>,
      ExpiryDate = zero_Time,
      UpdatedDate = zero_Time,
      IPAddress = ip\<rparr>"

definition teams_sink :: Webhook where
  "teams_sink = \<lparr>Type = ''teams'', URL = ''https://hooks.example/teams''\<rparr>"

definition pagerduty_sink :: Webhook where
  "pagerduty_sink = \<lparr>Type = ''pagerduty'', URL = ''https://hooks.example/broken''\<rparr>"

definition discord_sink :: Webhook where
  "discord_sink = \<lparr>Type = ''discord'', URL = ''https://hooks.example/discord''\<rparr>"

definition example_config :: Config where
  "example_config =
     \<lparr>Interval = 5,
      Domains = [\<lparr>Name = ''example.com'', Webhooks = [pagerduty_sink]\<rparr>,
                 \<lparr>Name = ''down.example'', Webhooks = [teams_sink]\<rparr>],
      GlobalWebhooks = [teams_sink]\<rparr>"

text \<open>A configuration that lists one name twice, with different sinks.\<close>

definition twice_config :: Config where
  "twice_config =
     \<lparr>Interval = 5,
      Domains = [\<lparr>Name = ''example.com'', Webhooks = [pagerduty_sink]\<rparr>,
                 \<lparr>Name = ''example.com'', Webhooks = []\<rparr>],
      GlobalWebhooks = [teams_sink]\<rparr>"

text \<open>
  Worlds for successive cycles: the configuration file reads well in the first cycle
  (no domains, interval 1) and is broken from the second cycle on.
\<close>

definition reload_worlds :: "nat \<Rightarrow> world" where
  "reload_worlds n =
     example_world\<lparr>read_Config :=
       (\<lambda>p. if n = 0 then Inr \<lparr>Interval = 1, Domains = [], GlobalWebhooks = []\<rparr>
            else Inl ''yaml: line 3: mapping values are not allowed in this context'')\<rparr>"

text \<open>
  Two observations that differ in the order of the name servers only (the WHOIS answer
  gives the registrar no name and has no dates).
\<close>

definition servers_b_c :: DomainInfo where
  "servers_b_c =
     \<lparr>Domain = ''a.io'', RegistrarTag = [], NameServers = [''b.io'', ''c.io''],
      CreationDate = zero_Time, ExpiryDate = zero_Time, UpdatedDate = zero_Time,
      IPAddress = ''1.1.1.1''\<rparr>"

definition servers_c_b :: DomainInfo where
  "servers_c_b = servers_b_c\<lparr>NameServers := [''c.io'', ''b.io'']\<rparr>"

text \<open>
  Midnight UTC of 2020-01-01 as \<^verbatim>\<open>time.Parse\<close> returns it for the layout \<^verbatim>\<open>RFC3339\<close> from
  a text with the zone \<open>Z\<close> and from a text with the offset \<open>+05:30\<close> (a zone fabricated
  from the offset, without abbreviation): one instant, two zones. And two observations
  that differ in the zone of the creation date only.
\<close>

definition new_year_utc :: Time where
  "new_year_utc = \<lparr>unix_sec = 1577836800, nsec = 0, zone_offset = 0, zone_name = ''UTC''\<rparr>"

definition new_year_0530 :: Time where
  "new_year_0530 = \<lparr>unix_sec = 1577836800, nsec = 0, zone_offset = 19800, zone_name = []\<rparr>"

definition zone_world :: world where
  "zone_world =
     example_world\<lparr>time_Parse :=
       (\<lambda>f s. if f = RFC3339 \<and> s = ''2020-01-01T00:00:00Z'' then Inr new_year_utc
              else if f = RFC3339 \<and> s = ''2020-01-01T05:30:00+05:30'' then Inr new_year_0530
              else Inl ''cannot parse'')\<rparr>"

definition created_utc :: DomainInfo where
  "created_utc = servers_b_c\<lparr>CreationDate := new_year_utc\<rparr>"

definition created_0530 :: DomainInfo where
  "created_0530 = servers_b_c\<lparr>CreationDate := new_year_0530\<rparr>"

text \<open>
  A configuration with one domain, whose own sink is a discord sink, and a global teams
  sink; and a previous map that holds this domain with its present fingerprint and a
  domain that is no longer configured.
\<close>

definition isolation_config :: Config where
  "isolation_config =
     \<lparr>Interval = 5,
      Domains = [\<lparr>Name = ''down.example'', Webhooks = [discord_sink]\<rparr>],
      GlobalWebhooks = [teams_sink]\<rparr>"

definition isolation_previous :: StateMap where
  "isolation_previous =
     [(''down.example'', HashDomainInfo (example_info ''down.example'' ''192.0.2.1'')),
      (''gone.example'', ''00'')]"

text \<open>
  A world in which the WHOIS answer at the first position is the usual one and every
  later answer names no registrar.
\<close>

definition bare_world :: world where
  "bare_world =
     example_world
       \<lparr>whois_Whois := (\<lambda>i name. if i = 0 then Inr ''raw'' else Inr ''raw, no registrar''),
        whoisparser_Parse :=
          (\<lambda>r. if r = ''raw'' then Inr (example_whois ''1995-08-14'')
               else Inr ((example_whois [])\<lparr>Registrar := None\<rparr>))\<rparr>"

text \<open>
  Worlds for successive cycles in which the configuration file always reads well and no
  WHOIS answer names a registrar.
\<close>

definition crash_worlds :: "nat \<Rightarrow> world" where
  "crash_worlds n =
     example_world
       \<lparr>read_Config := (\<lambda>p. Inr twice_config),
        whoisparser_Parse := (\<lambda>r. Inr ((example_whois [])\<lparr>Registrar := None\<rparr>))\<rparr>"

section \<open>Properties of \<^verbatim>\<open>LoadConfig\<close>\<close>

text \<open>
  C9. Whenever \<^verbatim>\<open>LoadConfig\<close> returns a configuration, its interval is the configured
  one if that is at least 5 and is 5 otherwise, so it is never below the floor; no other
  field is touched, and a low interval is not an error.
\<close>

theorem LoadConfig_interval_floor:
  "read_Config w filePath = Inr config \<Longrightarrow>
     (\<exists>c. LoadConfig w filePath = Inr c \<and> 5 \<le> Interval c
          \<and> Interval c = (if Interval config < 5 then 5 else Interval config)
          \<and> Domains c = Domains config \<and> GlobalWebhooks c = GlobalWebhooks config)"
  by (simp add: LoadConfig_def)

theorem LoadConfig_interval_floor_witness:
  "LoadConfig (\<lparr>read_Config = (\<lambda>p. Inr \<lparr>Interval = 1, Domains = [], GlobalWebhooks = []\<rparr>),
               whois_Whois = (\<lambda>i n. Inl ''down''),
               whoisparser_Parse = (\<lambda>r. Inl ''bad''),
               net_LookupIP = (\<lambda>i n. Inl ''down''),
               time_Parse = (\<lambda>f s. Inl ''bad''),
               http_Post = (\<lambda>k u p. Inr 200)\<rparr>) ''config.yaml''
     = Inr \<lparr>Interval = 5, Domains = [], GlobalWebhooks = []\<rparr>"
  using LoadConfig_interval_floor
    [of "\<lparr>read_Config = (\<lambda>p. Inr \<lparr>Interval = 1, Domains = [], GlobalWebhooks = []\<rparr>),
          whois_Whois = (\<lambda>i n. Inl ''down''),
          whoisparser_Parse = (\<lambda>r. Inl ''bad''),
          net_LookupIP = (\<lambda>i n. Inl ''down''),
          time_Parse = (\<lambda>f s. Inl ''bad''),
          http_Post = (\<lambda>k u p. Inr 200)\<rparr>"
        "''config.yaml''" "\<lparr>Interval = 1, Domains = [], GlobalWebhooks = []\<rparr>"]
  by auto

section \<open>Properties of \<^verbatim>\<open>parseDate\<close>\<close>

lemma parseDate_loop_first:
  "(\<exists>pre f post t. fs = pre @ f # post \<and> (\<forall>g\<in>set pre. \<exists>e. time_Parse w g s = Inl e)
       \<and> time_Parse w f s = Inr t \<and> parseDate_loop w fs s = t)
   \<or> ((\<forall>g\<in>set fs. \<exists>e. time_Parse w g s = Inl e) \<and> parseDate_loop w fs s = zero_Time)"
proof (induction fs)
  case Nil
  then show ?case by simp
next
  case (Cons f fs)
  show ?case
  proof (cases "time_Parse w f s")
    case (Inr t)
    then have "f # fs = [] @ f # fs \<and> (\<forall>g\<in>set []. \<exists>e. time_Parse w g s = Inl e)
       \<and> time_Parse w f s = Inr t \<and> parseDate_loop w (f # fs) s = t"
      by simp
    then show ?thesis by blast
  next
    case (Inl e)
    from Cons.IH show ?thesis
    proof
      assume "\<exists>pre g post t. fs = pre @ g # post \<and> (\<forall>g\<in>set pre. \<exists>e. time_Parse w g s = Inl e)
       \<and> time_Parse w g s = Inr t \<and> parseDate_loop w fs s = t"
      then obtain pre g post t where h: "fs = pre @ g # post"
        "\<forall>g\<in>set pre. \<exists>e. time_Parse w g s = Inl e" "time_Parse w g s = Inr t"
        "parseDate_loop w fs s = t" by blast
      have "f # fs = (f # pre) @ g # post \<and> (\<forall>g\<in>set (f # pre). \<exists>e. time_Parse w g s = Inl e)
       \<and> time_Parse w g s = Inr t \<and> parseDate_loop w (f # fs) s = t"
        using h Inl by simp
      then show ?thesis by blast
    next
      assume "(\<forall>g\<in>set fs. \<exists>e. time_Parse w g s = Inl e) \<and> parseDate_loop w fs s = zero_Time"
      then show ?thesis using Inl by simp
    qed
  qed
qed

text \<open>
  C8. For every timestamp string, \<^verbatim>\<open>parseDate\<close> goes through the layouts in the order of
  the list: either some layout parses the string while every layout before it fails, and
  the result is that layout's parse; or every layout fails and the result is the zero
  time. It returns a time in both cases, never an error.
\<close>

theorem parseDate_first_format_wins:
  "(\<exists>pre f post t. formats = pre @ f # post
       \<and> (\<forall>g\<in>set pre. \<exists>e. time_Parse w g dateStr = Inl e)
       \<and> time_Parse w f dateStr = Inr t \<and> parseDate w dateStr = t)
   \<or> ((\<forall>g\<in>set formats. \<exists>e. time_Parse w g dateStr = Inl e)
       \<and> parseDate w dateStr = zero_Time)"
  unfolding parseDate_def by (rule parseDate_loop_first)

theorem parseDate_first_format_wins_witness:
  "parseDate date_world ''2020-05-06'' = zero_Time\<lparr>unix_sec := 1588723200\<rparr>
   \<and> parseDate date_world ''May 6th'' = zero_Time"
  using parseDate_first_format_wins [of date_world "''2020-05-06''"]
        parseDate_first_format_wins [of date_world "''May 6th''"]
  by (auto simp: date_world_def formats_def RFC3339_def split: if_splits)

section \<open>The dispatch loop\<close>

lemma posts_append: "posts (a @ b) = posts a @ posts b"
  by (induction a rule: posts.induct) simp_all

lemma expected_posts_append:
  "expected_posts m info (xs @ ys) = expected_posts m info xs @ expected_posts m info ys"
  by (induction xs) (simp_all split: option.splits)

lemma post_payload_posts:
  "post_payload w sink payload tr = (r, tr') \<Longrightarrow> posts tr' = posts tr @ [(URL sink, payload)]"
  by (auto simp: post_payload_def posts_append split: sum.splits if_splits)

lemma SendWebhook_posts:
  "SendWebhook w sink message info tr = Return (r, tr') \<Longrightarrow>
     posts tr' = posts tr @ expected_posts message info [sink]"
  by (auto simp: SendWebhook_def payload_for_def dest: post_payload_posts
           split: if_splits option.splits)

lemma SendWebhook_returns:
  "info \<noteq> None \<or> Type sink \<noteq> ''discord'' \<Longrightarrow>
     \<exists>r tr'. SendWebhook w sink message info tr = Return (r, tr')"
  by (cases "post_payload w sink (pagerduty_payload sink message) tr";
      cases "post_payload w sink (teams_payload message) tr";
      cases info) (auto simp: SendWebhook_def intro: prod.exhaust)

lemma send_all_posts:
  "send_all w name sinks message info tr = Return tr' \<Longrightarrow>
     posts tr' = posts tr @ expected_posts message info sinks"
proof (induction sinks arbitrary: tr)
  case Nil
  then show ?case by simp
next
  case (Cons sink rest)
  from Cons.prems obtain r tr1 where s: "SendWebhook w sink message info tr = Return (r, tr1)"
    by (auto split: result.splits)
  have p1: "posts tr1 = posts tr @ expected_posts message info [sink]"
    using s by (rule SendWebhook_posts)
  show ?case
  proof (cases r)
    case None
    with Cons.prems s have "send_all w name rest message info tr1 = Return tr'" by simp
    from Cons.IH [OF this] p1 show ?thesis
      by (simp split: option.splits)
  next
    case (Some err)
    with Cons.prems s have
      "send_all w name rest message info
         (tr1 @ [Printf (''Error sending webhook for '' @ name @ '': '' @ err @ nl)]) = Return tr'"
      by simp
    from Cons.IH [OF this] p1 show ?thesis
      by (simp add: posts_append split: option.splits)
  qed
qed

lemma send_all_returns:
  "info \<noteq> None \<or> (\<forall>sink\<in>set sinks. Type sink \<noteq> ''discord'') \<Longrightarrow>
     \<exists>tr'. send_all w name sinks message info tr = Return tr'"
proof (induction sinks arbitrary: tr)
  case Nil
  then show ?case by simp
next
  case (Cons sink rest)
  then have "info \<noteq> None \<or> Type sink \<noteq> ''discord''" by auto
  from SendWebhook_returns [OF this] obtain r tr1
    where s: "SendWebhook w sink message info tr = Return (r, tr1)" by blast
  from Cons.prems have c: "info \<noteq> None \<or> (\<forall>sink\<in>set rest. Type sink \<noteq> ''discord'')" by auto
  show ?case
    using s Cons.IH [OF c] by (cases r) simp_all
qed

lemma dispatch_posts:
  "\<exists>st'. dispatch w config domain message info st = Return st'
        \<and> previousStates st' = previousStates st \<and> currentStates st' = currentStates st
        \<and> posts (trace st') = posts (trace st)
             @ expected_posts message (Some info) (Webhooks domain @ GlobalWebhooks config)"
proof -
  obtain tr1 where a: "send_all w (Name domain) (Webhooks domain) message (Some info) (trace st) = Return tr1"
    using send_all_returns [of "Some info"] by blast
  obtain tr2 where b: "send_all w (Name domain) (GlobalWebhooks config) message (Some info) tr1 = Return tr2"
    using send_all_returns [of "Some info"] by blast
  show ?thesis
    using a b send_all_posts [OF a] send_all_posts [OF b]
    by (simp add: dispatch_def expected_posts_append)
qed

section \<open>The two loops of \<^verbatim>\<open>MonitorDomains\<close>\<close>

lemma ParseWHOIS_Panic:
  "ParseWHOIS w name response = Panic t \<longleftrightarrow>
     t = [] \<and> (\<exists>result. whoisparser_Parse w response = Inr result \<and> Registrar result = None)"
  by (auto simp: ParseWHOIS_def split: sum.splits option.splits)

lemma monitor_domain_panics:
  "registrar_missing w i d \<Longrightarrow> monitor_domain w config i d st = Panic (trace st)"
  by (auto simp: registrar_missing_def monitor_domain_def ParseWHOIS_def
           split: sum.splits option.splits)

lemma monitor_domain_skip:
  "\<not> registrar_missing w i d \<Longrightarrow> observe w i d = None \<Longrightarrow>
     \<exists>line. monitor_domain w config i d st = Return (st\<lparr>trace := trace st @ [Printf line]\<rparr>)"
  by (auto simp: registrar_missing_def monitor_domain_def observe_def ParseWHOIS_Panic
           split: sum.splits result.splits)

lemma monitor_domain_effect:
  assumes "\<not> registrar_missing w i d"
  shows "\<exists>st'. monitor_domain w config i d st = Return st'
        \<and> previousStates st' = previousStates st
        \<and> currentStates st' =
            fold (\<lambda>(k, v). AList.update k v) (observed w i [d]) (currentStates st)
        \<and> posts (trace st') = posts (trace st)
             @ concat (map (event_posts config) (current_events w (previousStates st) i [d]))"
proof (cases "observe w i d")
  case None
  from monitor_domain_skip [OF assms None] obtain line where
    "monitor_domain w config i d st = Return (st\<lparr>trace := trace st @ [Printf line]\<rparr>)"
    by blast
  with None show ?thesis by (simp add: posts_append)
next
  case (Some info)
  then obtain response parsed ip where o:
    "whois_Whois w i (Name d) = Inr response"
    "ParseWHOIS w (Name d) response = Return (Inr parsed)"
    "ResolveIP w i (Name d) = Inr ip" "info = parsed\<lparr>IPAddress := ip\<rparr>"
    by (auto simp: observe_def split: sum.splits result.splits)
  define st1 where
    "st1 = st\<lparr>currentStates := AList.update (Name d) (HashDomainInfo info) (currentStates st)\<rparr>"
  have st1: "previousStates st1 = previousStates st" "trace st1 = trace st"
    "currentStates st1 = AList.update (Name d) (HashDomainInfo info) (currentStates st)"
    by (simp_all add: st1_def)
  show ?thesis
  proof (cases "classify (previousStates st) (Name d) (HashDomainInfo info)")
    case Enabled
    then have m: "map_of (previousStates st) (Name d) = None"
      by (auto simp: classify_def split: option.splits if_splits)
    obtain st' where d: "dispatch w config d (''Monitoring enabled for domain: '' @ Name d) info st1 = Return st'"
      "previousStates st' = previousStates st1" "currentStates st' = currentStates st1"
      "posts (trace st') = posts (trace st1)
         @ expected_posts (''Monitoring enabled for domain: '' @ Name d) (Some info)
             (Webhooks d @ GlobalWebhooks config)"
      using dispatch_posts by blast
    have "monitor_domain w config i d st = Return st'"
      using o m d(1) by (simp add: monitor_domain_def Let_def st1_def)
    then show ?thesis
      using d(2-4) st1 Some Enabled by (simp add: event_posts_def summary_def)
  next
    case Changed
    then obtain h where m: "map_of (previousStates st) (Name d) = Some h" "h \<noteq> HashDomainInfo info"
      by (auto simp: classify_def split: option.splits if_splits)
    obtain st' where d: "dispatch w config d (''Domain information changed for: '' @ Name d) info st1 = Return st'"
      "previousStates st' = previousStates st1" "currentStates st' = currentStates st1"
      "posts (trace st') = posts (trace st1)
         @ expected_posts (''Domain information changed for: '' @ Name d) (Some info)
             (Webhooks d @ GlobalWebhooks config)"
      using dispatch_posts by blast
    have "monitor_domain w config i d st = Return st'"
      using o m d(1) by (simp add: monitor_domain_def Let_def st1_def)
    then show ?thesis
      using d(2-4) st1 Some Changed by (simp add: event_posts_def summary_def)
  next
    case Unchanged
    then have m: "map_of (previousStates st) (Name d) = Some (HashDomainInfo info)"
      by (auto simp: classify_def split: option.splits if_splits)
    have "monitor_domain w config i d st = Return st1"
      using o m by (simp add: monitor_domain_def Let_def st1_def)
    then show ?thesis
      using st1 Some Unchanged by (simp add: event_posts_def)
  next
    case Removed
    then show ?thesis
      by (auto simp: classify_def split: option.splits if_splits)
  qed
qed

lemma observed_Cons:
  "observed w i (d # ds) = observed w i [d] @ observed w (Suc i) ds"
  by (simp split: option.splits)

lemma current_events_Cons:
  "current_events w p i (d # ds) = current_events w p i [d] @ current_events w p (Suc i) ds"
  by (simp split: option.splits)

lemma domains_loop_effect:
  "registrars_present w i ds \<Longrightarrow>
   \<exists>st'. domains_loop w config i ds st = Return st'
        \<and> previousStates st' = previousStates st
        \<and> currentStates st' =
            fold (\<lambda>(k, v). AList.update k v) (observed w i ds) (currentStates st)
        \<and> posts (trace st') = posts (trace st)
             @ concat (map (event_posts config) (current_events w (previousStates st) i ds))"
proof (induction ds arbitrary: i st)
  case Nil
  then show ?case by simp
next
  case (Cons d ds)
  from Cons.prems have p: "\<not> registrar_missing w i d" "registrars_present w (Suc i) ds"
    by simp_all
  obtain st1 where a: "monitor_domain w config i d st = Return st1"
    "previousStates st1 = previousStates st"
    "currentStates st1 = fold (\<lambda>(k, v). AList.update k v) (observed w i [d]) (currentStates st)"
    "posts (trace st1) = posts (trace st)
       @ concat (map (event_posts config) (current_events w (previousStates st) i [d]))"
    using monitor_domain_effect [OF p(1)] by blast
  obtain st2 where b: "domains_loop w config (Suc i) ds st1 = Return st2"
    "previousStates st2 = previousStates st1"
    "currentStates st2 = fold (\<lambda>(k, v). AList.update k v) (observed w (Suc i) ds) (currentStates st1)"
    "posts (trace st2) = posts (trace st1)
       @ concat (map (event_posts config) (current_events w (previousStates st1) (Suc i) ds))"
    using Cons.IH [OF p(2)] by blast
  have "domains_loop w config i (d # ds) st = Return st2"
    using a(1) b(1) by simp
  moreover have "currentStates st2 =
      fold (\<lambda>(k, v). AList.update k v) (observed w i (d # ds)) (currentStates st)"
    unfolding observed_Cons [of w i d ds] using a(3) b(3) by simp
  moreover have "posts (trace st2) = posts (trace st)
       @ concat (map (event_posts config) (current_events w (previousStates st) i (d # ds)))"
    unfolding current_events_Cons [of w _ i d ds] using a(2,4) b(4) by simp
  ultimately show ?case using a(2) b(2) by simp
qed

lemma domains_loop_Return:
  "domains_loop w config i ds st = Return st' \<Longrightarrow> registrars_present w i ds"
proof (induction ds arbitrary: i st)
  case Nil
  then show ?case by simp
next
  case (Cons d ds)
  have n: "\<not> registrar_missing w i d"
  proof
    assume "registrar_missing w i d"
    from monitor_domain_panics [OF this] Cons.prems show False by simp
  qed
  from Cons.prems obtain st1 where "monitor_domain w config i d st = Return st1"
    and "domains_loop w config (Suc i) ds st1 = Return st'"
    by (auto split: result.splits)
  from Cons.IH [OF this(2)] n show ?case by simp
qed

lemma finished_domain_sinks_posts:
  "finished_domain_sinks w k message ds tr = Return tr' \<Longrightarrow>
     posts tr' = posts tr
       @ expected_posts message None (concat (map Webhooks (filter (\<lambda>d. Name d = k) ds)))"
proof (induction ds arbitrary: tr)
  case Nil
  then show ?case by simp
next
  case (Cons d ds)
  show ?case
  proof (cases "Name d = k")
    case True
    with Cons.prems obtain tr1 where
      a: "send_all w k (Webhooks d) message None tr = Return tr1"
      and b: "finished_domain_sinks w k message ds tr1 = Return tr'"
      by (auto split: result.splits)
    show ?thesis
      using send_all_posts [OF a] Cons.IH [OF b] True by (simp add: expected_posts_append)
  next
    case False
    with Cons.prems Cons.IH show ?thesis by simp
  qed
qed

lemma finished_domain_sinks_returns:
  "\<forall>d\<in>set ds. \<forall>sink\<in>set (Webhooks d). Type sink \<noteq> ''discord'' \<Longrightarrow>
     \<exists>tr'. finished_domain_sinks w k message ds tr = Return tr'"
proof (induction ds arbitrary: tr)
  case Nil
  then show ?case by simp
next
  case (Cons d ds)
  then have "\<forall>sink\<in>set (Webhooks d). Type sink \<noteq> ''discord''" by simp
  then obtain tr1 where a: "send_all w k (Webhooks d) message None tr = Return tr1"
    using send_all_returns [of None "Webhooks d"] by blast
  from Cons.prems have "\<forall>d\<in>set ds. \<forall>sink\<in>set (Webhooks d). Type sink \<noteq> ''discord''" by simp
  from Cons.IH [OF this] a show ?case by simp
qed

lemma finished_domain_effect:
  "finished_domain w config k st = Return st' \<Longrightarrow>
     previousStates st' = previousStates st \<and> currentStates st' = currentStates st
     \<and> posts (trace st') = posts (trace st)
          @ concat (map (event_posts config)
                      (removed_events config [k] (map fst (currentStates st))))"
proof (cases "map_of (currentStates st) k")
  case (Some h)
  then have "k \<in> set (map fst (currentStates st))"
    by (metis map_of_eq_None_iff option.distinct(1) set_map)
  moreover assume "finished_domain w config k st = Return st'"
  ultimately show ?thesis using Some by (simp add: finished_domain_def removed_events_def)
next
  case None
  then have n: "k \<notin> set (map fst (currentStates st))"
    by (simp add: map_of_eq_None_iff)
  assume f: "finished_domain w config k st = Return st'"
  then obtain tr1 tr2 where
    a: "finished_domain_sinks w k (''Monitoring finished for domain: '' @ k) (Domains config) (trace st) = Return tr1"
    and b: "send_all w k (GlobalWebhooks config) (''Monitoring finished for domain: '' @ k) None tr1 = Return tr2"
    and c: "st' = st\<lparr>trace := tr2\<rparr>"
    using None by (auto simp: finished_domain_def Let_def split: result.splits)
  show ?thesis
    using finished_domain_sinks_posts [OF a] send_all_posts [OF b] c n
    by (simp add: removed_events_def removed_event_def event_posts_def summary_def
                  sinks_of_def expected_posts_append)
qed

lemma removed_events_Cons:
  "removed_events config (k # ks) seen = removed_events config [k] seen @ removed_events config ks seen"
  by (simp add: removed_events_def)

lemma finished_loop_effect:
  "finished_loop w config ks st = Return st' \<Longrightarrow>
     previousStates st' = previousStates st \<and> currentStates st' = currentStates st
     \<and> posts (trace st') = posts (trace st)
          @ concat (map (event_posts config)
                      (removed_events config ks (map fst (currentStates st))))"
proof (induction ks arbitrary: st)
  case Nil
  then show ?case by (simp add: removed_events_def)
next
  case (Cons k ks)
  from Cons.prems obtain st1 where a: "finished_domain w config k st = Return st1"
    and b: "finished_loop w config ks st1 = Return st'"
    by (auto split: result.splits)
  from finished_domain_effect [OF a] Cons.IH [OF b] show ?case
    unfolding removed_events_Cons [of config k ks] by simp
qed

lemma finished_domain_returns:
  "\<forall>sink\<in>set (concat (map Webhooks (Domains config)) @ GlobalWebhooks config).
      Type sink \<noteq> ''discord'' \<Longrightarrow>
     \<exists>st'. finished_domain w config k st = Return st'"
proof -
  assume h: "\<forall>sink\<in>set (concat (map Webhooks (Domains config)) @ GlobalWebhooks config).
      Type sink \<noteq> ''discord''"
  then have "\<forall>d\<in>set (Domains config). \<forall>sink\<in>set (Webhooks d). Type sink \<noteq> ''discord''"
    by auto
  from finished_domain_sinks_returns [OF this] obtain tr1 where
    a: "finished_domain_sinks w k (''Monitoring finished for domain: '' @ k) (Domains config) (trace st) = Return tr1"
    by blast
  from h have "\<forall>sink\<in>set (GlobalWebhooks config). Type sink \<noteq> ''discord''" by auto
  then obtain tr2 where
    b: "send_all w k (GlobalWebhooks config) (''Monitoring finished for domain: '' @ k) None tr1 = Return tr2"
    using send_all_returns [of None "GlobalWebhooks config"] by blast
  show ?thesis using a b
    by (cases "map_of (currentStates st) k") (simp_all add: finished_domain_def)
qed

lemma finished_loop_returns:
  "\<forall>sink\<in>set (concat (map Webhooks (Domains config)) @ GlobalWebhooks config).
      Type sink \<noteq> ''discord'' \<Longrightarrow>
     \<exists>st'. finished_loop w config ks st = Return st'"
proof (induction ks arbitrary: st)
  case Nil
  then show ?case by simp
next
  case (Cons k ks)
  from finished_domain_returns [OF Cons.prems] obtain st1 where
    a: "finished_domain w config k st = Return st1" by blast
  from Cons.IH [OF Cons.prems] a show ?case by simp
qed

section \<open>One cycle\<close>

lemma fold_update_keys:
  "set (map fst (fold (\<lambda>(k, v). AList.update k v) kvs m)) = set (map fst m) \<union> set (map fst kvs)"
proof (induction kvs arbitrary: m)
  case Nil
  then show ?case by simp
next
  case (Cons kv kvs)
  obtain k v where kv: "kv = (k, v)" by (cases kv)
  have "fst ` set (AList.update k v m) = {k} \<union> fst ` set m"
    by (rule dom_update)
  with Cons.IH [of "AList.update k v m"] kv show ?case by auto
qed

lemma fold_update_distinct:
  "distinct (map fst m) \<Longrightarrow> distinct (map fst (fold (\<lambda>(k, v). AList.update k v) kvs m))"
proof (induction kvs arbitrary: m)
  case Nil
  then show ?case by simp
next
  case (Cons kv kvs)
  obtain k v where kv: "kv = (k, v)" by (cases kv)
  have "distinct (map fst (AList.update k v m))"
    using Cons.prems by (rule distinct_update)
  from Cons.IH [OF this] kv show ?case by simp
qed

lemma fold_update_map_of:
  "map_of (fold (\<lambda>(k, v). AList.update k v) kvs m) = map_of m ++ map_of (rev kvs)"
proof (induction kvs arbitrary: m)
  case Nil
  then show ?case by simp
next
  case (Cons kv kvs)
  obtain k v where kv: "kv = (k, v)" by (cases kv)
  have "map_of (AList.update k v m) = (map_of m)(k \<mapsto> v)"
    by (rule update_conv')
  with Cons.IH [of "AList.update k v m"] kv show ?case
    by (auto simp: map_add_def fun_eq_iff split: option.splits)
qed

lemma MonitorDomains_effect:
  assumes "MonitorDomains w config previous = Return st"
  shows "previousStates st = previous"
    and "currentStates st = fold (\<lambda>(k, v). AList.update k v) (observed w 0 (Domains config)) []"
    and "posts (trace st) = concat (map (event_posts config) (events w config previous))"
    and "registrars_present w 0 (Domains config)"
proof -
  let ?st0 = "\<lparr>previousStates = previous, currentStates = [], trace = []\<rparr>"
  from assms obtain st0 where r: "domains_loop w config 0 (Domains config) ?st0 = Return st0"
    by (auto simp: MonitorDomains_def split: result.splits)
  from domains_loop_Return [OF r] have present: "registrars_present w 0 (Domains config)" .
  obtain st1 where a: "domains_loop w config 0 (Domains config) ?st0 = Return st1"
    "previousStates st1 = previousStates ?st0"
    "currentStates st1 =
       fold (\<lambda>(k, v). AList.update k v) (observed w 0 (Domains config)) (currentStates ?st0)"
    "posts (trace st1) = posts (trace ?st0)
       @ concat (map (event_posts config) (current_events w (previousStates ?st0) 0 (Domains config)))"
    using domains_loop_effect [OF present] by blast
  from assms a(1) have b: "finished_loop w config (map fst (previousStates st1)) st1 = Return st"
    by (simp add: MonitorDomains_def)
  have keys: "set (map fst (currentStates st1)) = set (map fst (observed w 0 (Domains config)))"
    using a(3) fold_update_keys [of "observed w 0 (Domains config)" "[]"] by simp
  have same: "removed_events config (map fst previous) (map fst (currentStates st1))
      = removed_events config (map fst previous) (map fst (observed w 0 (Domains config)))"
    unfolding removed_events_def using keys by simp
  from finished_loop_effect [OF b] a(2-4) same
  show "previousStates st = previous"
    and "currentStates st = fold (\<lambda>(k, v). AList.update k v) (observed w 0 (Domains config)) []"
    and "posts (trace st) = concat (map (event_posts config) (events w config previous))"
    by (simp_all add: events_def)
  show "registrars_present w 0 (Domains config)" by (rule present)
qed

lemma MonitorDomains_returns:
  assumes "registrars_present w 0 (Domains config)"
    and "\<forall>sink\<in>set (concat (map Webhooks (Domains config)) @ GlobalWebhooks config).
             Type sink \<noteq> ''discord''"
  shows "\<exists>st. MonitorDomains w config previous = Return st"
proof -
  obtain st1 where a: "domains_loop w config 0 (Domains config)
      \<lparr>previousStates = previous, currentStates = [], trace = []\<rparr> = Return st1"
    using domains_loop_effect [OF assms(1)] by blast
  from finished_loop_returns [OF assms(2)] a show ?thesis
    by (simp add: MonitorDomains_def)
qed

section \<open>The state map of the next cycle\<close>

text \<open>
  C7. When \<^verbatim>\<open>MonitorDomains\<close> returns, the map it returns was built from the empty map:
  its keys are exactly the names of the configured domains of which some occurrence
  passed the WHOIS fetch, the WHOIS parse and the DNS resolution in this cycle, each key
  once, mapped to the fingerprint of its last such occurrence; a name with no such
  occurrence is not a key. The map passed in is left as it was. The call does return
  when no configured domain gets a WHOIS answer without registrar (where \<^verbatim>\<open>ParseWHOIS\<close>
  panics) and no discord sink is configured (where the notification of a finished domain
  panics); it returns only if the first of these holds.
\<close>

theorem MonitorDomains_next_StateMap:
  "(MonitorDomains w config previous = Return st \<longrightarrow>
      previousStates st = previous
      \<and> distinct (map fst (currentStates st))
      \<and> set (map fst (currentStates st)) = set (map fst (observed w 0 (Domains config)))
      \<and> map_of (currentStates st) = map_of (rev (observed w 0 (Domains config)))
      \<and> registrars_present w 0 (Domains config))
   \<and> (registrars_present w 0 (Domains config)
       \<and> (\<forall>sink\<in>set (concat (map Webhooks (Domains config)) @ GlobalWebhooks config).
            Type sink \<noteq> ''discord'') \<longrightarrow>
        (\<exists>st'. MonitorDomains w config previous = Return st'))"
proof (rule conjI; rule impI)
  assume r: "MonitorDomains w config previous = Return st"
  note e = MonitorDomains_effect [OF r]
  have "distinct (map fst (currentStates st))"
    unfolding e(2) by (rule fold_update_distinct) simp
  moreover have "set (map fst (currentStates st)) = set (map fst (observed w 0 (Domains config)))"
    unfolding e(2) fold_update_keys by simp
  moreover have "map_of (currentStates st) = map_of (rev (observed w 0 (Domains config)))"
    unfolding e(2) fold_update_map_of by simp
  ultimately show "previousStates st = previous
      \<and> distinct (map fst (currentStates st))
      \<and> set (map fst (currentStates st)) = set (map fst (observed w 0 (Domains config)))
      \<and> map_of (currentStates st) = map_of (rev (observed w 0 (Domains config)))
      \<and> registrars_present w 0 (Domains config)"
    using e(1,4) by simp
next
  assume "registrars_present w 0 (Domains config)
       \<and> (\<forall>sink\<in>set (concat (map Webhooks (Domains config)) @ GlobalWebhooks config).
            Type sink \<noteq> ''discord'')"
  then show "\<exists>st'. MonitorDomains w config previous = Return st'"
    using MonitorDomains_returns by blast
qed

lemma example_observe_0:
  "observe example_world 0 \<lparr>Name = ''example.com'', Webhooks = sinks\<rparr>
     = Some (example_info ''example.com'' ''192.0.2.1'')"
  by (simp add: observe_def example_world_def example_whois_def example_info_def
                ParseWHOIS_def ResolveIP_def parseDate_def formats_def RFC3339_def)

lemma example_observe_1:
  "observe example_world (Suc 0) \<lparr>Name = ''example.com'', Webhooks = sinks\<rparr>
     = Some (example_info ''example.com'' ''192.0.2.2'')"
  by (simp add: observe_def example_world_def example_whois_def example_info_def
                ParseWHOIS_def ResolveIP_def parseDate_def formats_def RFC3339_def)

lemma example_observe_down:
  "observe example_world i \<lparr>Name = ''down.example'', Webhooks = sinks\<rparr> = None"
  by (simp add: observe_def example_world_def)

lemma example_registrar: "\<not> registrar_missing example_world i d"
  by (simp add: registrar_missing_def example_world_def example_whois_def)

lemma example_registrars: "registrars_present example_world i ds"
  by (induction ds arbitrary: i) (simp_all add: example_registrar)

theorem MonitorDomains_next_StateMap_witness:
  "\<exists>st. MonitorDomains example_world example_config [(''gone.example'', ''00'')] = Return st
        \<and> previousStates st = [(''gone.example'', ''00'')]
        \<and> set (map fst (currentStates st)) = {''example.com''}
        \<and> map_of (currentStates st) ''example.com''
             = Some (HashDomainInfo (example_info ''example.com'' ''192.0.2.1''))"
proof -
  have "\<forall>sink\<in>set (concat (map Webhooks (Domains example_config)) @ GlobalWebhooks example_config).
          Type sink \<noteq> ''discord''"
    by (simp add: example_config_def teams_sink_def pagerduty_sink_def)
  with MonitorDomains_next_StateMap [of example_world example_config "[(''gone.example'', ''00'')]"]
    example_registrars
  obtain st where
    r: "MonitorDomains example_world example_config [(''gone.example'', ''00'')] = Return st"
    by blast
  have o: "observed example_world 0 (Domains example_config)
      = [(''example.com'', HashDomainInfo (example_info ''example.com'' ''192.0.2.1''))]"
    by (simp add: example_config_def example_observe_0 example_observe_down)
  from MonitorDomains_next_StateMap
         [of example_world example_config "[(''gone.example'', ''00'')]" st] r o
  show ?thesis by simp
qed

section \<open>A finished domain and a discord sink\<close>

text \<open>
  C3. The claim is that \<^verbatim>\<open>SendWebhook\<close> with a nil \<^verbatim>\<open>DomainInfo\<close> and a discord sink
  builds a payload with the summary only. The code reads the fields of the nil pointer:
  the call panics, whatever the message, and sends nothing.
\<close>

theorem SendWebhook_discord_nil_panics:
  "SendWebhook w \<lparr>Type = ''discord'', URL = url\<rparr> message None tr = Panic tr"
  by (simp add: SendWebhook_def)

text \<open>
  C4. The claim is that each global sink receives the notification of a finished
  domain. With a discord sink first in the global list the cycle panics at that sink
  and the teams sink after it receives nothing.
\<close>

theorem MonitorDomains_finished_discord_panics:
  "MonitorDomains w \<lparr>Interval = 5, Domains = [], GlobalWebhooks = [discord_sink, teams_sink]\<rparr>
     [(''example.com'', ''00'')] = Panic []"
  by (simp add: MonitorDomains_def finished_domain_def SendWebhook_def discord_sink_def)

section \<open>Failure isolation\<close>

text \<open>
  C6. The claim is that a domain whose WHOIS fetch fails is only skipped and that the
  events of every other domain are unaffected. Here \<open>down.example\<close>, whose own sink is a
  discord sink, fails its fetch; it is in the previous map, so it counts as finished, its
  notification goes to the discord sink without an observation, and the cycle panics
  there: the notification that \<open>gone.example\<close> is finished is never sent (the previous
  map is visited with \<open>down.example\<close> first, one of the orders Go may take). In the same
  cycle with the fetch succeeding, the global sink receives that notification.
\<close>

theorem fetch_failure_loses_other_events:
  "MonitorDomains example_world isolation_config isolation_previous
     = Panic [Printf (''Error fetching WHOIS information for down.example: i/o timeout'' @ nl)]
   \<and> deliveries (MonitorDomains example_world isolation_config isolation_previous) = []
   \<and> deliveries (MonitorDomains (example_world\<lparr>whois_Whois := (\<lambda>i name. Inr ''raw'')\<rparr>)
                   isolation_config isolation_previous)
       = [(''https://hooks.example/teams'',
           teams_payload ''Monitoring finished for domain: gone.example'')]"
proof -
  have a: "MonitorDomains example_world isolation_config isolation_previous
     = Panic [Printf (''Error fetching WHOIS information for down.example: i/o timeout'' @ nl)]"
    by (simp add: MonitorDomains_def isolation_config_def isolation_previous_def
                  monitor_domain_def example_world_def finished_domain_def SendWebhook_def
                  discord_sink_def)
  have b: "monitor_domain (example_world\<lparr>whois_Whois := (\<lambda>i name. Inr ''raw'')\<rparr>)
             isolation_config 0 \<lparr>Name = ''down.example'', Webhooks = [discord_sink]\<rparr>
             \<lparr>previousStates = isolation_previous, currentStates = [], trace = []\<rparr>
      = Return \<lparr>previousStates = isolation_previous,
                 currentStates =
                   [(''down.example'', HashDomainInfo (example_info ''down.example'' ''192.0.2.1''))],
                 trace = []\<rparr>"
    by (simp add: monitor_domain_def example_world_def example_whois_def example_info_def
                  ParseWHOIS_def ResolveIP_def parseDate_def formats_def RFC3339_def
                  isolation_previous_def Let_def)
  have c: "MonitorDomains (example_world\<lparr>whois_Whois := (\<lambda>i name. Inr ''raw'')\<rparr>)
                   isolation_config isolation_previous
      = Return \<lparr>previousStates = isolation_previous,
                 currentStates =
                   [(''down.example'', HashDomainInfo (example_info ''down.example'' ''192.0.2.1''))],
                 trace = [HttpPost ''https://hooks.example/teams''
                            (teams_payload ''Monitoring finished for domain: gone.example'')]\<rparr>"
    using b
    by (simp add: MonitorDomains_def isolation_config_def isolation_previous_def
                  finished_domain_def SendWebhook_def teams_sink_def post_payload_def
                  example_world_def)
  show ?thesis
    unfolding a c by (simp add: deliveries_def)
qed

section \<open>A name configured more than once\<close>

lemma current_events_names:
  "map ev_domain (current_events w p i ds) = map fst (observed w i ds)"
  by (induction ds arbitrary: i) (simp_all split: option.splits)

lemma current_events_new:
  "map_of p name = None \<Longrightarrow> e \<in> set (current_events w p i ds) \<Longrightarrow> ev_domain e = name \<Longrightarrow>
     ev_kind e = Enabled"
  by (induction ds arbitrary: i) (auto simp: classify_def split: option.splits)

lemma count_by_name:
  "length (filter (\<lambda>e. f e = name) xs) = length (filter (\<lambda>n. n = name) (map f xs))"
  by (induction xs) simp_all

lemma map_of_rev_last:
  "name \<notin> fst ` set after \<Longrightarrow>
     map_of (rev (before @ (name, hash) # after)) name = Some hash"
proof -
  assume "name \<notin> fst ` set after"
  then have "map_of (rev after) name = None"
    by (simp add: map_of_eq_None_iff)
  then show ?thesis
    by (simp add: map_add_def)
qed

lemma domains_loop_append:
  "registrars_present w i before \<Longrightarrow>
   \<exists>st1. domains_loop w config i before st = Return st1
        \<and> posts (trace st1) = posts (trace st)
             @ concat (map (event_posts config) (current_events w (previousStates st) i before))
        \<and> domains_loop w config i (before @ rest) st
            = domains_loop w config (i + length before) rest st1"
proof (induction before arbitrary: i st)
  case Nil
  then show ?case by simp
next
  case (Cons d ds)
  from Cons.prems have p: "\<not> registrar_missing w i d" "registrars_present w (Suc i) ds"
    by simp_all
  obtain st1 where a: "monitor_domain w config i d st = Return st1"
    "previousStates st1 = previousStates st"
    "posts (trace st1) = posts (trace st)
       @ concat (map (event_posts config) (current_events w (previousStates st) i [d]))"
    using monitor_domain_effect [OF p(1)] by blast
  obtain st2 where b: "domains_loop w config (Suc i) ds st1 = Return st2"
    "posts (trace st2) = posts (trace st1)
       @ concat (map (event_posts config) (current_events w (previousStates st1) (Suc i) ds))"
    "domains_loop w config (Suc i) (ds @ rest) st1
       = domains_loop w config (Suc i + length ds) rest st2"
    using Cons.IH [OF p(2)] by blast
  have "posts (trace st2) = posts (trace st)
       @ concat (map (event_posts config) (current_events w (previousStates st) i (d # ds)))"
    unfolding current_events_Cons [of w _ i d ds] using a(2,3) b(2) by simp
  with a(1) b(1,3) show ?case by simp
qed

text \<open>
  C10. Each occurrence of a configured name is judged against the previous map alone:
  when the loop over the configured domains returns, what it has sent is, for every
  observed occurrence in turn, the notification of that occurrence's transition from the
  previous map. The loop returns when no configured domain gets a WHOIS answer without
  registrar; at the first domain that gets one it panics, having sent the notifications
  of the occurrences before it. So for a name that the previous map does not hold, every
  observed occurrence gives one Enabled event, as many events as observed occurrences.
  And when the cycle returns, the map it returns holds for a name the fingerprint of its
  last observed occurrence.
\<close>

theorem duplicate_occurrences:
  "(domains_loop w config 0 (Domains config)
       \<lparr>previousStates = previous, currentStates = [], trace = []\<rparr> = Return st1 \<longrightarrow>
      posts (trace st1) =
        concat (map (event_posts config) (current_events w previous 0 (Domains config))))
   \<and> (registrars_present w 0 (Domains config) \<longrightarrow>
        (\<exists>st'. domains_loop w config 0 (Domains config)
                 \<lparr>previousStates = previous, currentStates = [], trace = []\<rparr> = Return st'))
   \<and> (Domains config = reached @ d # rest \<and> registrars_present w 0 reached
        \<and> registrar_missing w (length reached) d \<longrightarrow>
        (\<exists>t. domains_loop w config 0 (Domains config)
                \<lparr>previousStates = previous, currentStates = [], trace = []\<rparr> = Panic t
             \<and> posts t = concat (map (event_posts config) (current_events w previous 0 reached))))
   \<and> (map_of previous name = None \<longrightarrow>
        (\<forall>e\<in>set (current_events w previous 0 (Domains config)).
            ev_domain e = name \<longrightarrow> ev_kind e = Enabled)
        \<and> length (filter (\<lambda>e. ev_domain e = name) (current_events w previous 0 (Domains config)))
            = length (filter (\<lambda>n. n = name) (map fst (observed w 0 (Domains config)))))
   \<and> (MonitorDomains w config previous = Return st
        \<and> observed w 0 (Domains config) = before @ (name, hash) # after
        \<and> name \<notin> fst ` set after \<longrightarrow>
        map_of (currentStates st) name = Some hash)"
proof (intro conjI impI ballI)
  let ?st0 = "\<lparr>previousStates = previous, currentStates = [], trace = []\<rparr>"
  assume r: "domains_loop w config 0 (Domains config) ?st0 = Return st1"
  from domains_loop_effect [OF domains_loop_Return [OF r], of config ?st0] r
  show "posts (trace st1) =
        concat (map (event_posts config) (current_events w previous 0 (Domains config)))"
    by auto
next
  assume "registrars_present w 0 (Domains config)"
  from domains_loop_effect [OF this, of config
         "\<lparr>previousStates = previous, currentStates = [], trace = []\<rparr>"]
  show "\<exists>st'. domains_loop w config 0 (Domains config)
                 \<lparr>previousStates = previous, currentStates = [], trace = []\<rparr> = Return st'"
    by blast
next
  let ?st0 = "\<lparr>previousStates = previous, currentStates = [], trace = []\<rparr>"
  assume h: "Domains config = reached @ d # rest \<and> registrars_present w 0 reached
        \<and> registrar_missing w (length reached) d"
  then obtain st1 where a: "posts (trace st1) = posts (trace ?st0)
             @ concat (map (event_posts config) (current_events w (previousStates ?st0) 0 reached))"
     "domains_loop w config 0 (reached @ d # rest) ?st0
            = domains_loop w config (0 + length reached) (d # rest) st1"
    using domains_loop_append [of w 0 reached config ?st0 "d # rest"] by blast
  have "monitor_domain w config (length reached) d st1 = Panic (trace st1)"
    using h by (simp add: monitor_domain_panics)
  with a h show "\<exists>t. domains_loop w config 0 (Domains config) ?st0 = Panic t
             \<and> posts t = concat (map (event_posts config) (current_events w previous 0 reached))"
    by simp
next
  fix e
  assume "map_of previous name = None"
    and "e \<in> set (current_events w previous 0 (Domains config))" and "ev_domain e = name"
  then show "ev_kind e = Enabled" by (rule current_events_new)
next
  show "length (filter (\<lambda>e. ev_domain e = name) (current_events w previous 0 (Domains config)))
            = length (filter (\<lambda>n. n = name) (map fst (observed w 0 (Domains config))))"
    using count_by_name [of ev_domain name "current_events w previous 0 (Domains config)"]
    by (simp only: current_events_names)
next
  assume h: "MonitorDomains w config previous = Return st
        \<and> observed w 0 (Domains config) = before @ (name, hash) # after
        \<and> name \<notin> fst ` set after"
  then have "currentStates st
      = fold (\<lambda>(k, v). AList.update k v) (before @ (name, hash) # after) []"
    using MonitorDomains_effect(2) [of w config previous st] by metis
  then have "map_of (currentStates st) = map_of (rev (before @ (name, hash) # after))"
    by (simp only: fold_update_map_of map_of.simps(1) empty_map_add)
  with h show "map_of (currentStates st) name = Some hash"
    using map_of_rev_last [of name after before hash] by simp
qed

lemma twice_observed:
  "observed example_world 0 (Domains twice_config)
     = [(''example.com'', HashDomainInfo (example_info ''example.com'' ''192.0.2.1'')),
        (''example.com'', HashDomainInfo (example_info ''example.com'' ''192.0.2.2''))]"
  by (simp add: twice_config_def example_observe_0 example_observe_1)

lemma twice_events:
  "current_events example_world [] 0 (Domains twice_config)
     = [\<lparr>ev_kind = Enabled, ev_domain = ''example.com'',
         ev_info = Some (example_info ''example.com'' ''192.0.2.1''),
         ev_sinks = [pagerduty_sink]\<rparr>,
        \<lparr>ev_kind = Enabled, ev_domain = ''example.com'',
         ev_info = Some (example_info ''example.com'' ''192.0.2.2''),
         ev_sinks = []\<rparr>]"
  by (simp add: twice_config_def example_observe_0 example_observe_1 classify_def)

lemma twice_returns: "\<exists>st. MonitorDomains example_world twice_config [] = Return st"
  by (rule MonitorDomains_returns [OF example_registrars])
     (simp add: twice_config_def pagerduty_sink_def teams_sink_def)

lemma twice_posts:
  "concat (map (event_posts twice_config) (current_events example_world [] 0 (Domains twice_config)))
     = [(''https://hooks.example/broken'',
         pagerduty_payload pagerduty_sink ''Monitoring enabled for domain: example.com''),
        (''https://hooks.example/teams'',
         teams_payload ''Monitoring enabled for domain: example.com''),
        (''https://hooks.example/teams'',
         teams_payload ''Monitoring enabled for domain: example.com'')]"
  unfolding twice_events
  by (simp add: event_posts_def summary_def payload_for_def pagerduty_sink_def teams_sink_def
                twice_config_def)

lemma bare_first:
  "current_events bare_world [] 0 [\<lparr>Name = ''example.com'', Webhooks = [pagerduty_sink]\<rparr>]
     = [\<lparr>ev_kind = Enabled, ev_domain = ''example.com'',
         ev_info = Some (example_info ''example.com'' ''192.0.2.1''),
         ev_sinks = [pagerduty_sink]\<rparr>]"
  by (simp add: observe_def bare_world_def example_world_def example_whois_def example_info_def
                ParseWHOIS_def ResolveIP_def parseDate_def formats_def RFC3339_def classify_def)

theorem duplicate_occurrences_witness:
  "length (filter (\<lambda>e. ev_domain e = ''example.com'' \<and> ev_kind e = Enabled)
             (current_events example_world [] 0 (Domains twice_config))) = 2
   \<and> (\<exists>st1. domains_loop example_world twice_config 0 (Domains twice_config)
               \<lparr>previousStates = [], currentStates = [], trace = []\<rparr> = Return st1
          \<and> posts (trace st1) =
              [(''https://hooks.example/broken'',
                pagerduty_payload pagerduty_sink ''Monitoring enabled for domain: example.com''),
               (''https://hooks.example/teams'',
                teams_payload ''Monitoring enabled for domain: example.com''),
               (''https://hooks.example/teams'',
                teams_payload ''Monitoring enabled for domain: example.com'')])
   \<and> (\<exists>t. domains_loop bare_world twice_config 0 (Domains twice_config)
               \<lparr>previousStates = [], currentStates = [], trace = []\<rparr> = Panic t
          \<and> posts t =
              [(''https://hooks.example/broken'',
                pagerduty_payload pagerduty_sink ''Monitoring enabled for domain: example.com''),
               (''https://hooks.example/teams'',
                teams_payload ''Monitoring enabled for domain: example.com'')])
   \<and> (\<exists>st. MonitorDomains example_world twice_config [] = Return st
          \<and> map_of (currentStates st) ''example.com''
               = Some (HashDomainInfo (example_info ''example.com'' ''192.0.2.2'')))"
proof -
  let ?st0 = "\<lparr>previousStates = [], currentStates = [], trace = []\<rparr> :: state"
  obtain st where r: "MonitorDomains example_world twice_config [] = Return st"
    using twice_returns by blast
  note t = duplicate_occurrences [where w = example_world and config = twice_config
      and previous = "[]" and name = "''example.com''" and st = st
      and before = "[(''example.com'', HashDomainInfo (example_info ''example.com'' ''192.0.2.1''))]"
      and hash = "HashDomainInfo (example_info ''example.com'' ''192.0.2.2'')" and after = "[]"]
  from t r have a: "map_of (currentStates st) ''example.com''
      = Some (HashDomainInfo (example_info ''example.com'' ''192.0.2.2''))"
    by (simp add: twice_observed)
  from t have "length (filter (\<lambda>e. ev_domain e = ''example.com'')
             (current_events example_world [] 0 (Domains twice_config))) = 2"
    by (simp add: twice_observed)
  then have b: "length (filter (\<lambda>e. ev_domain e = ''example.com'' \<and> ev_kind e = Enabled)
             (current_events example_world [] 0 (Domains twice_config))) = 2"
    by (simp add: twice_events)
  obtain st1 where c: "domains_loop example_world twice_config 0 (Domains twice_config) ?st0
      = Return st1"
    using duplicate_occurrences [where w = example_world and config = twice_config
      and previous = "[]"] example_registrars by blast
  have d: "posts (trace st1) = concat (map (event_posts twice_config)
      (current_events example_world [] 0 (Domains twice_config)))"
    using duplicate_occurrences [where w = example_world and config = twice_config
      and previous = "[]" and ?st1.0 = st1] c by blast
  have e: "Domains twice_config
      = [\<lparr>Name = ''example.com'', Webhooks = [pagerduty_sink]\<rparr>]
        @ \<lparr>Name = ''example.com'', Webhooks = []\<rparr> # []
      \<and> registrars_present bare_world 0 [\<lparr>Name = ''example.com'', Webhooks = [pagerduty_sink]\<rparr>]
      \<and> registrar_missing bare_world
          (length [\<lparr>Name = ''example.com'', Webhooks = [pagerduty_sink]\<rparr>])
          \<lparr>Name = ''example.com'', Webhooks = []\<rparr>"
    by (simp add: twice_config_def registrar_missing_def bare_world_def example_whois_def)
  obtain t' where f: "domains_loop bare_world twice_config 0 (Domains twice_config) ?st0 = Panic t'"
    "posts t' = concat (map (event_posts twice_config)
       (current_events bare_world [] 0 [\<lparr>Name = ''example.com'', Webhooks = [pagerduty_sink]\<rparr>]))"
    using duplicate_occurrences [where w = bare_world and config = twice_config
      and previous = "[]"
      and reached = "[\<lparr>Name = ''example.com'', Webhooks = [pagerduty_sink]\<rparr>]"
      and d = "\<lparr>Name = ''example.com'', Webhooks = []\<rparr>" and rest = "[]"] e
    by blast
  have g: "posts t' =
              [(''https://hooks.example/broken'',
                pagerduty_payload pagerduty_sink ''Monitoring enabled for domain: example.com''),
               (''https://hooks.example/teams'',
                teams_payload ''Monitoring enabled for domain: example.com'')]"
    unfolding f(2) bare_first
    by (simp add: event_posts_def summary_def payload_for_def pagerduty_sink_def teams_sink_def
                  twice_config_def)
  from a b c d f(1) g r show ?thesis
    unfolding twice_posts by blast
qed

section \<open>Transition completeness\<close>

lemma observed_names_subset:
  "set (map fst (observed w i ds)) \<subseteq> set (map Name ds)"
  by (induction ds arbitrary: i) (auto split: option.splits)

lemma observed_distinct:
  "distinct (map Name ds) \<Longrightarrow> distinct (map fst (observed w i ds))"
proof (induction ds arbitrary: i)
  case Nil
  then show ?case by simp
next
  case (Cons d ds)
  have "Name d \<notin> set (map fst (observed w (Suc i) ds))"
    using Cons.prems observed_names_subset [of w "Suc i" ds] by auto
  with Cons show ?case by (simp split: option.splits)
qed

lemma current_events_kind:
  "e \<in> set (current_events w p i ds) \<Longrightarrow>
     \<exists>h. (ev_domain e, h) \<in> set (observed w i ds) \<and> ev_kind e = classify p (ev_domain e) h"
  by (induction ds arbitrary: i) (auto split: option.splits)

lemma removed_events_names:
  "map ev_domain (removed_events config keys seen) = filter (\<lambda>k. k \<notin> set seen) keys"
  by (simp add: removed_events_def removed_event_def comp_def)

lemma removed_events_kind:
  "e \<in> set (removed_events config keys seen) \<Longrightarrow> ev_kind e = Removed"
  by (auto simp: removed_events_def removed_event_def)

lemma filter_distinct_single:
  "distinct (map f xs) \<Longrightarrow> x \<in> set xs \<Longrightarrow> filter (\<lambda>e. f e = f x) xs = [x]"
proof (induction xs)
  case Nil
  then show ?case by simp
next
  case (Cons a xs)
  show ?case
  proof (cases "x = a")
    case True
    have "f a \<notin> f ` set xs"
      using Cons.prems(1) by simp
    then have "\<forall>e\<in>set xs. f e \<noteq> f a"
      by (metis imageI)
    then have "filter (\<lambda>e. f e = f a) xs = []"
      by (simp add: filter_empty_conv)
    with True show ?thesis by simp
  next
    case False
    with Cons.prems have "x \<in> set xs" "f a \<noteq> f x" by auto
    with Cons show ?thesis by simp
  qed
qed

lemma map_of_rev_distinct:
  "distinct (map fst xs) \<Longrightarrow> map_of (rev xs) = map_of xs"
proof
  fix k
  assume d: "distinct (map fst xs)"
  then have dr: "distinct (map fst (rev xs))" by (simp add: rev_map [symmetric])
  show "map_of (rev xs) k = map_of xs k"
  proof (cases "map_of xs k")
    case None
    then have "k \<notin> fst ` set xs" by (simp add: map_of_eq_None_iff)
    then have "map_of (rev xs) k = None" by (simp add: map_of_eq_None_iff)
    with None show ?thesis by simp
  next
    case (Some v)
    then have "(k, v) \<in> set (rev xs)" using d by simp
    then have "map_of (rev xs) k = Some v" using dr by simp
    with Some show ?thesis by simp
  qed
qed

text \<open>
  C2, amended. The claim fails for a configuration that lists a name twice: that name
  is then emitted once for each occurrence. For a configuration with distinct names, and
  whenever the cycle returns, what the cycle sends is the dispatch of a list of events with
  exactly one event for each domain of C \<union> keys(P), where C is the set of domains
  observed in this cycle (the keys of the returned map): Enabled for a domain in C that P
  does not hold, Changed for one in both whose fingerprint differs from the entry of P,
  the silent outcome when they are equal, Removed for a key of P outside C; and no other
  event. A cycle that panics is left out of this statement.
\<close>

theorem transition_completeness:
  assumes "MonitorDomains w config previous = Return st"
    and "distinct (map Name (Domains config))"
    and "distinct (map fst previous)"
  shows "posts (trace st) = concat (map (event_posts config) (events w config previous))
    \<and> (\<forall>e\<in>set (events w config previous).
          ev_domain e \<in> set (map fst (currentStates st)) \<union> set (map fst previous))
    \<and> (\<forall>name\<in>set (map fst (currentStates st)) \<union> set (map fst previous).
          \<exists>e. filter (\<lambda>e. ev_domain e = name) (events w config previous) = [e]
             \<and> ev_kind e =
                 (if map_of (currentStates st) name = None then Removed
                  else if map_of previous name = None then Enabled
                  else if map_of previous name \<noteq> map_of (currentStates st) name then Changed
                  else Unchanged))"
proof -
  let ?obs = "observed w 0 (Domains config)"
  let ?cur = "current_events w previous 0 (Domains config)"
  let ?rem = "removed_events config (map fst previous) (map fst ?obs)"
  let ?C = "set (map fst (currentStates st))"
  let ?K = "set (map fst previous)"
  note e = MonitorDomains_effect [OF assms(1)]
  have ev: "events w config previous = ?cur @ ?rem" by (simp add: events_def)
  have keys: "?C = set (map fst ?obs)"
    unfolding e(2) fold_update_keys by simp
  have dobs: "distinct (map fst ?obs)"
    using assms(2) by (rule observed_distinct)
  have mo: "map_of (currentStates st) = map_of ?obs"
    unfolding e(2) fold_update_map_of using map_of_rev_distinct [OF dobs] by simp
  have ncur: "map ev_domain ?cur = map fst ?obs" by (rule current_events_names)
  have nrem: "map ev_domain ?rem = filter (\<lambda>k. k \<notin> set (map fst ?obs)) (map fst previous)"
    by (rule removed_events_names)
  have names: "set (map ev_domain (events w config previous)) = ?C \<union> ?K"
    unfolding ev map_append ncur nrem keys by auto
  have dist: "distinct (map ev_domain (events w config previous))"
    unfolding ev map_append ncur nrem using dobs assms(3) by auto
  have part2: "\<forall>e\<in>set (events w config previous). ev_domain e \<in> ?C \<union> ?K"
    using names by auto
  have part3: "\<forall>name\<in>?C \<union> ?K.
          \<exists>e. filter (\<lambda>e. ev_domain e = name) (events w config previous) = [e]
             \<and> ev_kind e =
                 (if map_of (currentStates st) name = None then Removed
                  else if map_of previous name = None then Enabled
                  else if map_of previous name \<noteq> map_of (currentStates st) name then Changed
                  else Unchanged)"
  proof
    fix name
    assume "name \<in> ?C \<union> ?K"
    then have "name \<in> set (map ev_domain (events w config previous))"
      using names by simp
    then obtain x where x: "x \<in> set (events w config previous)" "ev_domain x = name"
      by auto
    have single: "filter (\<lambda>e. ev_domain e = name) (events w config previous) = [x]"
      using filter_distinct_single [OF dist x(1)] x(2) by simp
    have "ev_kind x =
                 (if map_of (currentStates st) name = None then Removed
                  else if map_of previous name = None then Enabled
                  else if map_of previous name \<noteq> map_of (currentStates st) name then Changed
                  else Unchanged)"
    proof (cases "x \<in> set ?cur")
      case True
      from current_events_kind [OF True] x(2) obtain h where
        h: "(name, h) \<in> set ?obs" "ev_kind x = classify previous name h" by auto
      from h(1) dobs have "map_of ?obs name = Some h" by simp
      with mo have "map_of (currentStates st) name = Some h" by simp
      with h(2) show ?thesis
        by (auto simp: classify_def split: option.splits)
    next
      case False
      with x(1) ev have r: "x \<in> set ?rem" by simp
      then have k: "ev_kind x = Removed" by (rule removed_events_kind)
      from r have "ev_domain x \<in> set (map ev_domain ?rem)" by simp
      then have "name \<notin> set (map fst ?obs)" unfolding nrem using x(2) by simp
      then have "map_of (currentStates st) name = None"
        using keys by (simp add: map_of_eq_None_iff)
      with k show ?thesis by simp
    qed
    with single show "\<exists>e. filter (\<lambda>e. ev_domain e = name) (events w config previous) = [e]
             \<and> ev_kind e =
                 (if map_of (currentStates st) name = None then Removed
                  else if map_of previous name = None then Enabled
                  else if map_of previous name \<noteq> map_of (currentStates st) name then Changed
                  else Unchanged)"
      by blast
  qed
  from e(3) part2 part3 show ?thesis by blast
qed

lemma twice_all_events:
  "events example_world twice_config []
     = [\<lparr>ev_kind = Enabled, ev_domain = ''example.com'',
         ev_info = Some (example_info ''example.com'' ''192.0.2.1''),
         ev_sinks = [pagerduty_sink]\<rparr>,
        \<lparr>ev_kind = Enabled, ev_domain = ''example.com'',
         ev_info = Some (example_info ''example.com'' ''192.0.2.2''),
         ev_sinks = []\<rparr>]"
  by (simp add: events_def twice_events removed_events_def)

text \<open>
  The claim of C2 as stated fails here: one configured name, listed twice and new to the
  previous map, gives two Enabled events, and the global sink receives two notifications.
\<close>

theorem transition_completeness_counterexample:
  "map ev_domain (events example_world twice_config []) = [''example.com'', ''example.com'']
   \<and> map ev_kind (events example_world twice_config []) = [Enabled, Enabled]
   \<and> deliveries (MonitorDomains example_world twice_config []) =
       [(''https://hooks.example/broken'',
         pagerduty_payload pagerduty_sink ''Monitoring enabled for domain: example.com''),
        (''https://hooks.example/teams'',
         teams_payload ''Monitoring enabled for domain: example.com''),
        (''https://hooks.example/teams'',
         teams_payload ''Monitoring enabled for domain: example.com'')]"
proof -
  obtain st where r: "MonitorDomains example_world twice_config [] = Return st"
    using twice_returns by blast
  have "posts (trace st) = concat (map (event_posts twice_config) (events example_world twice_config []))"
    using r by (rule MonitorDomains_effect(3))
  also have "\<dots> =
       [(''https://hooks.example/broken'',
         pagerduty_payload pagerduty_sink ''Monitoring enabled for domain: example.com''),
        (''https://hooks.example/teams'',
         teams_payload ''Monitoring enabled for domain: example.com''),
        (''https://hooks.example/teams'',
         teams_payload ''Monitoring enabled for domain: example.com'')]"
    unfolding twice_all_events
    by (simp add: event_posts_def summary_def payload_for_def pagerduty_sink_def teams_sink_def
                  twice_config_def)
  finally show ?thesis
    using r by (simp add: deliveries_def twice_all_events)
qed

lemma example_all_events:
  "events example_world example_config [(''gone.example'', ''00''), (''down.example'', ''11'')]
     = [\<lparr>ev_kind = Enabled, ev_domain = ''example.com'',
         ev_info = Some (example_info ''example.com'' ''192.0.2.1''),
         ev_sinks = [pagerduty_sink]\<rparr>,
        \<lparr>ev_kind = Removed, ev_domain = ''gone.example'', ev_info = None, ev_sinks = []\<rparr>,
        \<lparr>ev_kind = Removed, ev_domain = ''down.example'', ev_info = None,
         ev_sinks = [teams_sink]\<rparr>]"
  by (simp add: events_def example_config_def example_observe_0 example_observe_down
                classify_def removed_events_def removed_event_def sinks_of_def)

theorem transition_completeness_witness:
  "\<exists>st. MonitorDomains example_world example_config
            [(''gone.example'', ''00''), (''down.example'', ''11'')] = Return st
        \<and> posts (trace st) =
            [(''https://hooks.example/broken'',
              pagerduty_payload pagerduty_sink ''Monitoring enabled for domain: example.com''),
             (''https://hooks.example/teams'',
              teams_payload ''Monitoring enabled for domain: example.com''),
             (''https://hooks.example/teams'',
              teams_payload ''Monitoring finished for domain: gone.example''),
             (''https://hooks.example/teams'',
              teams_payload ''Monitoring finished for domain: down.example''),
             (''https://hooks.example/teams'',
              teams_payload ''Monitoring finished for domain: down.example'')]"
proof -
  let ?P = "[(''gone.example'', ''00''), (''down.example'', ''11'')]"
  have "\<forall>sink\<in>set (concat (map Webhooks (Domains example_config)) @ GlobalWebhooks example_config).
          Type sink \<noteq> ''discord''"
    by (simp add: example_config_def teams_sink_def pagerduty_sink_def)
  then obtain st where r: "MonitorDomains example_world example_config ?P = Return st"
    using MonitorDomains_returns [OF example_registrars] by blast
  have d1: "distinct (map Name (Domains example_config))"
    by (simp add: example_config_def)
  have d2: "distinct (map fst ?P)" by simp
  have "posts (trace st)
      = concat (map (event_posts example_config) (events example_world example_config ?P))"
    using transition_completeness [OF r d1 d2] by blast
  also have "\<dots> =
            [(''https://hooks.example/broken'',
              pagerduty_payload pagerduty_sink ''Monitoring enabled for domain: example.com''),
             (''https://hooks.example/teams'',
              teams_payload ''Monitoring enabled for domain: example.com''),
             (''https://hooks.example/teams'',
              teams_payload ''Monitoring finished for domain: gone.example''),
             (''https://hooks.example/teams'',
              teams_payload ''Monitoring finished for domain: down.example''),
             (''https://hooks.example/teams'',
              teams_payload ''Monitoring finished for domain: down.example'')]"
    unfolding example_all_events
    by (simp add: event_posts_def summary_def payload_for_def pagerduty_sink_def teams_sink_def
                  example_config_def)
  finally show ?thesis using r by blast
qed

section \<open>The polling loop\<close>

lemma LoadConfig_Inl: "LoadConfig w p = Inl err \<longleftrightarrow> read_Config w p = Inl err"
  by (auto simp: LoadConfig_def split: sum.splits)

lemma main_loop_exit_cause:
  "main_loop W fuel c prev tr = Exited n tr' \<Longrightarrow>
     (\<exists>err. read_Config (W n) ''config.yaml'' = Inl err) \<and> c \<le> n \<and> n < c + fuel"
proof (induction fuel arbitrary: c prev tr)
  case 0
  then show ?case by simp
next
  case (Suc fuel)
  show ?case
  proof (cases "LoadConfig (W c) ''config.yaml''")
    case (Inl err)
    with Suc.prems have "n = c" by simp
    with Inl show ?thesis by (auto simp: LoadConfig_Inl)
  next
    case (Inr config)
    show ?thesis
    proof (cases "MonitorDomains (W c) config prev")
      case (Panic t)
      with Inr Suc.prems show ?thesis by simp
    next
      case (Return st)
      with Inr Suc.prems have
        "main_loop W fuel (Suc c) (currentStates st)
           (tr @ trace st @ [Sleep (sleep_duration (Interval config))]) = Exited n tr'"
        by simp
      from Suc.IH [OF this] show ?thesis by auto
    qed
  qed
qed

text \<open>Running \<open>a + b\<close> cycles is running \<open>a\<close> cycles and then, if still looping, \<open>b\<close> more.\<close>

lemma main_loop_add:
  "main_loop W (a + b) c prev tr =
     (case main_loop W a c prev tr of
        Running p t \<Rightarrow> main_loop W b (c + a) p t
      | Exited n t \<Rightarrow> Exited n t
      | Crashed n t \<Rightarrow> Crashed n t)"
proof (induction a arbitrary: c prev tr)
  case 0
  then show ?case by simp
next
  case (Suc a)
  show ?case
  proof (cases "LoadConfig (W c) ''config.yaml''")
    case (Inl err)
    then show ?thesis by simp
  next
    case (Inr config)
    show ?thesis
    proof (cases "MonitorDomains (W c) config prev")
      case (Panic t)
      with Inr show ?thesis by simp
    next
      case (Return st)
      with Inr Suc.IH [of "Suc c" "currentStates st"
          "tr @ trace st @ [Sleep (sleep_duration (Interval config))]"]
      show ?thesis by (simp split: run.splits)
    qed
  qed
qed

lemma main_after:
  "main W n = Running previous tr \<Longrightarrow> main W (n + b) = main_loop W b n previous tr"
  using main_loop_add [of W n b 0 "[]" "[]"] by (simp add: main_def)

lemma main_loop_crash_cause:
  "main_loop W fuel c prev tr = Crashed n tr' \<Longrightarrow>
     c \<le> n \<and> n < c + fuel
     \<and> (\<exists>config previous tr0 t.
            main_loop W (n - c) c prev tr = Running previous tr0
          \<and> LoadConfig (W n) ''config.yaml'' = Inr config
          \<and> MonitorDomains (W n) config previous = Panic t
          \<and> tr' = tr0 @ t)"
proof (induction fuel arbitrary: c prev tr)
  case 0
  then show ?case by simp
next
  case (Suc fuel)
  show ?case
  proof (cases "LoadConfig (W c) ''config.yaml''")
    case (Inl err)
    with Suc.prems show ?thesis by simp
  next
    case (Inr config)
    show ?thesis
    proof (cases "MonitorDomains (W c) config prev")
      case (Panic t)
      with Inr Suc.prems have "n = c" "tr' = tr @ t" by simp_all
      with Inr Panic show ?thesis by simp
    next
      case (Return st)
      let ?tr = "tr @ trace st @ [Sleep (sleep_duration (Interval config))]"
      from Return Inr Suc.prems have
        "main_loop W fuel (Suc c) (currentStates st) ?tr = Crashed n tr'"
        by simp
      from Suc.IH [OF this] obtain config' previous tr0 t where
        a: "Suc c \<le> n" "n < Suc c + fuel"
        "main_loop W (n - Suc c) (Suc c) (currentStates st) ?tr = Running previous tr0"
        "LoadConfig (W n) ''config.yaml'' = Inr config'"
        "MonitorDomains (W n) config' previous = Panic t" "tr' = tr0 @ t"
        by blast
      from a(1) have "n - c = Suc (n - Suc c)" by simp
      then have "main_loop W (n - c) c prev tr = Running previous tr0"
        using Inr Return a(3) by simp
      with a show ?thesis by auto
    qed
  qed
qed

text \<open>
  C5, amended. The claim fails: a reload failure in a later cycle ends the loop just as
  a failure of the first load does. What holds: \<^verbatim>\<open>main\<close> returns only in a cycle whose
  configuration load fails; whenever the loop reaches a cycle, the first or any later
  one, whose load fails, \<^verbatim>\<open>main\<close> prints the error and returns in that cycle; and after a
  cycle whose load succeeds and whose monitoring pass returns, the loop goes on to the
  next cycle with the map of that pass. The loop ends in one other way only: the
  monitoring pass of a cycle that it has reached, with a configuration that loaded,
  panics. (\<open>main W n = Running previous tr\<close>: the loop has completed \<open>n\<close> cycles and is
  about to start cycle \<open>n\<close>.)
\<close>

theorem main_returns_on_any_load_failure:
  "(main W fuel = Exited n tr \<longrightarrow>
      (\<exists>err. read_Config (W n) ''config.yaml'' = Inl err) \<and> n < fuel)
   \<and> (main W n = Running previous tr \<and> read_Config (W n) ''config.yaml'' = Inl err \<longrightarrow>
        main W (Suc n + k)
          = Exited n (tr @ [Printf (''Error loading config: '' @ err @ nl)]))
   \<and> (main W n = Running previous tr \<and> LoadConfig (W n) ''config.yaml'' = Inr config
        \<and> MonitorDomains (W n) config previous = Return st \<longrightarrow>
        main W (Suc n)
          = Running (currentStates st)
              (tr @ trace st @ [Sleep (sleep_duration (Interval config))]))
   \<and> (main W fuel = Crashed n tr \<longrightarrow>
        n < fuel
        \<and> (\<exists>config' previous' tr0 t.
              main W n = Running previous' tr0
            \<and> LoadConfig (W n) ''config.yaml'' = Inr config'
            \<and> MonitorDomains (W n) config' previous' = Panic t
            \<and> tr = tr0 @ t))"
proof (intro conjI)
  show "main W fuel = Exited n tr \<longrightarrow>
      (\<exists>err. read_Config (W n) ''config.yaml'' = Inl err) \<and> n < fuel"
    using main_loop_exit_cause [of W fuel 0 "[]" "[]" n tr] by (simp add: main_def)
next
  show "main W n = Running previous tr \<and> read_Config (W n) ''config.yaml'' = Inl err \<longrightarrow>
        main W (Suc n + k)
          = Exited n (tr @ [Printf (''Error loading config: '' @ err @ nl)])"
  proof
    assume h: "main W n = Running previous tr \<and> read_Config (W n) ''config.yaml'' = Inl err"
    then have "LoadConfig (W n) ''config.yaml'' = Inl err" by (simp add: LoadConfig_Inl)
    moreover have "main W (n + Suc k) = main_loop W (Suc k) n previous tr"
      using h by (simp only: main_after)
    ultimately show "main W (Suc n + k)
          = Exited n (tr @ [Printf (''Error loading config: '' @ err @ nl)])"
      by simp
  qed
next
  show "main W n = Running previous tr \<and> LoadConfig (W n) ''config.yaml'' = Inr config
        \<and> MonitorDomains (W n) config previous = Return st \<longrightarrow>
        main W (Suc n)
          = Running (currentStates st)
              (tr @ trace st @ [Sleep (sleep_duration (Interval config))])"
  proof
    assume h: "main W n = Running previous tr \<and> LoadConfig (W n) ''config.yaml'' = Inr config
        \<and> MonitorDomains (W n) config previous = Return st"
    then have "main W (n + Suc 0) = main_loop W (Suc 0) n previous tr"
      by (simp only: main_after)
    with h show "main W (Suc n)
          = Running (currentStates st)
              (tr @ trace st @ [Sleep (sleep_duration (Interval config))])"
      by simp
  qed
next
  show "main W fuel = Crashed n tr \<longrightarrow>
        n < fuel
        \<and> (\<exists>config' previous' tr0 t.
              main W n = Running previous' tr0
            \<and> LoadConfig (W n) ''config.yaml'' = Inr config'
            \<and> MonitorDomains (W n) config' previous' = Panic t
            \<and> tr = tr0 @ t)"
    using main_loop_crash_cause [of W fuel 0 "[]" "[]" n tr] by (simp add: main_def)
qed

lemma crash_first_cycle: "main crash_worlds 1 = Crashed 0 []"
  by (simp add: main_def LoadConfig_def crash_worlds_def twice_config_def MonitorDomains_def
                monitor_domain_def example_world_def example_whois_def ParseWHOIS_def)

theorem main_returns_on_any_load_failure_witness:
  "main reload_worlds 1 = Running [] [Sleep (sleep_duration 5)]
   \<and> main reload_worlds 2
       = Exited 1 [Sleep (sleep_duration 5),
                   Printf (''Error loading config: ''
                     @ ''yaml: line 3: mapping values are not allowed in this context'' @ nl)]
   \<and> main crash_worlds 1 = Crashed 0 []
   \<and> MonitorDomains (crash_worlds 0) twice_config [] = Panic []"
proof -
  have a: "main reload_worlds 0 = Running [] []" by (simp add: main_def)
  have b: "LoadConfig (reload_worlds 0) ''config.yaml''
      = Inr \<lparr>Interval = 5, Domains = [], GlobalWebhooks = []\<rparr>"
    by (simp add: LoadConfig_def reload_worlds_def)
  have c: "MonitorDomains (reload_worlds 0) \<lparr>Interval = 5, Domains = [], GlobalWebhooks = []\<rparr> []
      = Return \<lparr>previousStates = [], currentStates = [], trace = []\<rparr>"
    by (simp add: MonitorDomains_def)
  have d: "main reload_worlds (Suc 0) = Running [] [Sleep (sleep_duration 5)]"
    using main_returns_on_any_load_failure [where W = reload_worlds and n = 0
      and previous = "[]" and tr = "[]"
      and config = "\<lparr>Interval = 5, Domains = [], GlobalWebhooks = []\<rparr>"
      and st = "\<lparr>previousStates = [], currentStates = [], trace = []\<rparr>"] a b c
    by simp
  have e: "read_Config (reload_worlds (Suc 0)) ''config.yaml''
      = Inl ''yaml: line 3: mapping values are not allowed in this context''"
    by (simp add: reload_worlds_def)
  have f: "main reload_worlds (Suc (Suc 0) + 0)
       = Exited (Suc 0) ([Sleep (sleep_duration 5)] @
                   [Printf (''Error loading config: ''
                     @ ''yaml: line 3: mapping values are not allowed in this context'' @ nl)])"
    using main_returns_on_any_load_failure [where W = reload_worlds and n = "Suc 0"
      and previous = "[]" and tr = "[Sleep (sleep_duration 5)]" and k = 0
      and err = "''yaml: line 3: mapping values are not allowed in this context''"] d e
    by blast
  have g: "main crash_worlds 0 = Running [] []" by (simp add: main_def)
  have h: "LoadConfig (crash_worlds 0) ''config.yaml'' = Inr twice_config"
    by (simp add: LoadConfig_def crash_worlds_def twice_config_def)
  have i: "main crash_worlds 1 = Crashed 0 []" by (rule crash_first_cycle)
  from main_returns_on_any_load_failure [where W = crash_worlds and fuel = 1 and n = 0
      and tr = "[]"] i
  obtain config' previous' tr0 t where
    j: "main crash_worlds 0 = Running previous' tr0"
      "LoadConfig (crash_worlds 0) ''config.yaml'' = Inr config'"
      "MonitorDomains (crash_worlds 0) config' previous' = Panic t"
      "[] = tr0 @ t"
    by blast
  from g h j have "MonitorDomains (crash_worlds 0) twice_config [] = Panic []"
    by simp
  with d f i show ?thesis by (simp add: numeral_2_eq_2)
qed

text \<open>
  The claim of C5 as stated fails here: the first load succeeds, the reload of the
  second cycle fails, and \<^verbatim>\<open>main\<close> has returned in that cycle although it could have run
  three.
\<close>

theorem main_reload_failure_counterexample:
  "main reload_worlds 3
     = Exited 1 [Sleep (sleep_duration 5),
                 Printf (''Error loading config: ''
                   @ ''yaml: line 3: mapping values are not allowed in this context'' @ nl)]"
  by (simp add: main_def numeral_3_eq_3 reload_worlds_def LoadConfig_def MonitorDomains_def)

section \<open>Digests\<close>

text \<open>The test vector of FIPS 180-4 for the message \<open>abc\<close>, then four renderings.\<close>

lemma upt8: "[0..<8] = [0, 1, 2, 3, 4, 5, 6, 7]"
  by (simp add: upt_conv_Cons)

lemma upt4: "[0..<4] = [0, 1, 2, 3]"
  by (simp add: upt_conv_Cons)

lemma be_bytes_8:
  "be_bytes 8 x = [x div 72057594037927936 mod 256, x div 281474976710656 mod 256,
     x div 1099511627776 mod 256, x div 4294967296 mod 256, x div 16777216 mod 256,
     x div 65536 mod 256, x div 256 mod 256, x mod 256]"
  by (simp add: be_bytes_def upt8)

lemma be_bytes_4:
  "be_bytes 4 x = [x div 16777216 mod 256, x div 65536 mod 256, x div 256 mod 256, x mod 256]"
  by (simp add: be_bytes_def upt4)

lemma pad_eval:
  "length m = n \<Longrightarrow>
     pad m = m @ 128 # replicate ((119 - n mod 64) mod 64) 0 @ be_bytes 8 (8 * n)"
  by (simp add: pad_def)

lemma replicate_numeral_Cons: "replicate (numeral k) x = x # replicate (pred_numeral k) x"
  by (simp add: numeral_eq_Suc)

lemma abc_bytes:
  "map of_char ''abc'' =
     [97, 98, 99]"
  by simp

lemma abc_length:
  "length
     ([97, 98, 99] :: nat list) = (3::nat)"
  by simp

lemma abc_pad:
  "pad
     [97, 98, 99] =
     [97, 98, 99, 128, 0, 0, 0, 0, 0, 0, 0, 0, 0, 0, 0, 0, 0, 0, 0, 0, 0, 0, 0, 0, 0, 0, 0,
     0, 0, 0, 0, 0, 0, 0, 0, 0, 0, 0, 0, 0, 0, 0, 0, 0, 0, 0, 0, 0, 0, 0, 0, 0, 0, 0, 0, 0,
     0, 0, 0, 0, 0, 0, 0, 24]"
  by (simp add: pad_eval [OF abc_length] replicate_numeral_Cons be_bytes_8)

lemma abc_block_1:
  "compress H0
     [97, 98, 99, 128, 0, 0, 0, 0, 0, 0, 0, 0, 0, 0, 0, 0, 0, 0, 0, 0, 0, 0, 0, 0, 0, 0, 0,
     0, 0, 0, 0, 0, 0, 0, 0, 0, 0, 0, 0, 0, 0, 0, 0, 0, 0, 0, 0, 0, 0, 0, 0, 0, 0, 0, 0, 0,
     0, 0, 0, 0, 0, 0, 0, 24] =
     [3128432319, 2399260650, 1094795486, 1571693091, 2953011619, 2518121116, 3021012833,
     4060091821]"
  by (simp add: compress_def K256_def H0_def sched_word_def add32_def ssig0_def ssig1_def
              bsig0_def bsig1_def ch_def maj_def T1_def T2_def step_def rotr_def be32_def)

lemma abc_blocks:
  "blocks H0
     [97, 98, 99, 128, 0, 0, 0, 0, 0, 0, 0, 0, 0, 0, 0, 0, 0, 0, 0, 0, 0, 0, 0, 0, 0, 0, 0,
     0, 0, 0, 0, 0, 0, 0, 0, 0, 0, 0, 0, 0, 0, 0, 0, 0, 0, 0, 0, 0, 0, 0, 0, 0, 0, 0, 0, 0,
     0, 0, 0, 0, 0, 0, 0, 24] =
     [3128432319, 2399260650, 1094795486, 1571693091, 2953011619, 2518121116, 3021012833,
     4060091821]"
  by (simp add: abc_block_1)

lemma abc_digest:
  "fmt_hex (Sum256 (map of_char ''abc''))
     = ''ba7816bf8f01cfea414140de5dae2223b00361a396177a9cb410ff61f20015ad''"
  unfolding abc_bytes Sum256_def abc_pad abc_blocks
  by (simp add: be_bytes_4 fmt_hex_def hex_byte_def)

lemma first_bytes:
  "map of_char ''{a.io  [b.io c.io] 0001-01-01 00:00:00 +0000 UTC 0001-01-01 00:00:00 +0000 UTC 0001-01-01 00:00:00 +0000 UTC 1.1.1.1}'' =
     [123, 97, 46, 105, 111, 32, 32, 91, 98, 46, 105, 111, 32, 99, 46, 105, 111, 93, 32,
     48, 48, 48, 49, 45, 48, 49, 45, 48, 49, 32, 48, 48, 58, 48, 48, 58, 48, 48, 32, 43,
     48, 48, 48, 48, 32, 85, 84, 67, 32, 48, 48, 48, 49, 45, 48, 49, 45, 48, 49, 32, 48,
     48, 58, 48, 48, 58, 48, 48, 32, 43, 48, 48, 48, 48, 32, 85, 84, 67, 32, 48, 48, 48,
     49, 45, 48, 49, 45, 48, 49, 32, 48, 48, 58, 48, 48, 58, 48, 48, 32, 43, 48, 48, 48,
     48, 32, 85, 84, 67, 32, 49, 46, 49, 46, 49, 46, 49, 125]"
  by simp

lemma first_length:
  "length
     ([123, 97, 46, 105, 111, 32, 32, 91, 98, 46, 105, 111, 32, 99, 46, 105, 111, 93, 32,
     48, 48, 48, 49, 45, 48, 49, 45, 48, 49, 32, 48, 48, 58, 48, 48, 58, 48, 48, 32, 43,
     48, 48, 48, 48, 32, 85, 84, 67, 32, 48, 48, 48, 49, 45, 48, 49, 45, 48, 49, 32, 48,
     48, 58, 48, 48, 58, 48, 48, 32, 43, 48, 48, 48, 48, 32, 85, 84, 67, 32, 48, 48, 48,
     49, 45, 48, 49, 45, 48, 49, 32, 48, 48, 58, 48, 48, 58, 48, 48, 32, 43, 48, 48, 48,
     48, 32, 85, 84, 67, 32, 49, 46, 49, 46, 49, 46, 49, 125] :: nat list) = (117::nat)"
  by simp

lemma first_pad:
  "pad
     [123, 97, 46, 105, 111, 32, 32, 91, 98, 46, 105, 111, 32, 99, 46, 105, 111, 93, 32,
     48, 48, 48, 49, 45, 48, 49, 45, 48, 49, 32, 48, 48, 58, 48, 48, 58, 48, 48, 32, 43,
     48, 48, 48, 48, 32, 85, 84, 67, 32, 48, 48, 48, 49, 45, 48, 49, 45, 48, 49, 32, 48,
     48, 58, 48, 48, 58, 48, 48, 32, 43, 48, 48, 48, 48, 32, 85, 84, 67, 32, 48, 48, 48,
     49, 45, 48, 49, 45, 48, 49, 32, 48, 48, 58, 48, 48, 58, 48, 48, 32, 43, 48, 48, 48,
     48, 32, 85, 84, 67, 32, 49, 46, 49, 46, 49, 46, 49, 125] =
     [123, 97, 46, 105, 111, 32, 32, 91, 98, 46, 105, 111, 32, 99, 46, 105, 111, 93, 32,
     48, 48, 48, 49, 45, 48, 49, 45, 48, 49, 32, 48, 48, 58, 48, 48, 58, 48, 48, 32, 43,
     48, 48, 48, 48, 32, 85, 84, 67, 32, 48, 48, 48, 49, 45, 48, 49, 45, 48, 49, 32, 48,
     48, 58, 48, 48, 58, 48, 48, 32, 43, 48, 48, 48, 48, 32, 85, 84, 67, 32, 48, 48, 48,
     49, 45, 48, 49, 45, 48, 49, 32, 48, 48, 58, 48, 48, 58, 48, 48, 32, 43, 48, 48, 48,
     48, 32, 85, 84, 67, 32, 49, 46, 49, 46, 49, 46, 49, 125, 128, 0, 0, 0, 0, 0, 0, 0, 0,
     3, 168]"
  by (simp add: pad_eval [OF first_length] replicate_numeral_Cons be_bytes_8)

lemma first_block_1:
  "compress H0
     [123, 97, 46, 105, 111, 32, 32, 91, 98, 46, 105, 111, 32, 99, 46, 105, 111, 93, 32,
     48, 48, 48, 49, 45, 48, 49, 45, 48, 49, 32, 48, 48, 58, 48, 48, 58, 48, 48, 32, 43,
     48, 48, 48, 48, 32, 85, 84, 67, 32, 48, 48, 48, 49, 45, 48, 49, 45, 48, 49, 32, 48,
     48, 58, 48] =
     [2240698380, 1645901515, 1245136006, 3592086633, 2909283553, 3927216052, 3962941544,
     288833908]"
  by (simp add: compress_def K256_def H0_def sched_word_def add32_def ssig0_def ssig1_def
              bsig0_def bsig1_def ch_def maj_def T1_def T2_def step_def rotr_def be32_def)

lemma first_block_2:
  "compress 
     [2240698380, 1645901515, 1245136006, 3592086633, 2909283553, 3927216052, 3962941544,
     288833908]
     [48, 58, 48, 48, 32, 43, 48, 48, 48, 48, 32, 85, 84, 67, 32, 48, 48, 48, 49, 45, 48,
     49, 45, 48, 49, 32, 48, 48, 58, 48, 48, 58, 48, 48, 32, 43, 48, 48, 48, 48, 32, 85,
     84, 67, 32, 49, 46, 49, 46, 49, 46, 49, 125, 128, 0, 0, 0, 0, 0, 0, 0, 0, 3, 168] =
     [4272644608, 404353681, 941694229, 2467960752, 2987873403, 2977726714, 2784944311,
     13402365]"
  by (simp add: compress_def K256_def H0_def sched_word_def add32_def ssig0_def ssig1_def
              bsig0_def bsig1_def ch_def maj_def T1_def T2_def step_def rotr_def be32_def)

lemma first_blocks:
  "blocks H0
     [123, 97, 46, 105, 111, 32, 32, 91, 98, 46, 105, 111, 32, 99, 46, 105, 111, 93, 32,
     48, 48, 48, 49, 45, 48, 49, 45, 48, 49, 32, 48, 48, 58, 48, 48, 58, 48, 48, 32, 43,
     48, 48, 48, 48, 32, 85, 84, 67, 32, 48, 48, 48, 49, 45, 48, 49, 45, 48, 49, 32, 48,
     48, 58, 48, 48, 58, 48, 48, 32, 43, 48, 48, 48, 48, 32, 85, 84, 67, 32, 48, 48, 48,
     49, 45, 48, 49, 45, 48, 49, 32, 48, 48, 58, 48, 48, 58, 48, 48, 32, 43, 48, 48, 48,
     48, 32, 85, 84, 67, 32, 49, 46, 49, 46, 49, 46, 49, 125, 128, 0, 0, 0, 0, 0, 0, 0, 0,
     3, 168] =
     [4272644608, 404353681, 941694229, 2467960752, 2987873403, 2977726714, 2784944311,
     13402365]"
  by (simp add: first_block_1 first_block_2)

lemma first_digest:
  "fmt_hex (Sum256 (map of_char ''{a.io  [b.io c.io] 0001-01-01 00:00:00 +0000 UTC 0001-01-01 00:00:00 +0000 UTC 0001-01-01 00:00:00 +0000 UTC 1.1.1.1}''))
     = ''feab62001819f29138211d15931a17b0b217547bb17c80faa5fee0b700cc80fd''"
  unfolding first_bytes Sum256_def first_pad first_blocks
  by (simp add: be_bytes_4 fmt_hex_def hex_byte_def)

lemma second_bytes:
  "map of_char ''{a.io  [c.io b.io] 0001-01-01 00:00:00 +0000 UTC 0001-01-01 00:00:00 +0000 UTC 0001-01-01 00:00:00 +0000 UTC 1.1.1.1}'' =
     [123, 97, 46, 105, 111, 32, 32, 91, 99, 46, 105, 111, 32, 98, 46, 105, 111, 93, 32,
     48, 48, 48, 49, 45, 48, 49, 45, 48, 49, 32, 48, 48, 58, 48, 48, 58, 48, 48, 32, 43,
     48, 48, 48, 48, 32, 85, 84, 67, 32, 48, 48, 48, 49, 45, 48, 49, 45, 48, 49, 32, 48,
     48, 58, 48, 48, 58, 48, 48, 32, 43, 48, 48, 48, 48, 32, 85, 84, 67, 32, 48, 48, 48,
     49, 45, 48, 49, 45, 48, 49, 32, 48, 48, 58, 48, 48, 58, 48, 48, 32, 43, 48, 48, 48,
     48, 32, 85, 84, 67, 32, 49, 46, 49, 46, 49, 46, 49, 125]"
  by simp

lemma second_length:
  "length
     ([123, 97, 46, 105, 111, 32, 32, 91, 99, 46, 105, 111, 32, 98, 46, 105, 111, 93, 32,
     48, 48, 48, 49, 45, 48, 49, 45, 48, 49, 32, 48, 48, 58, 48, 48, 58, 48, 48, 32, 43,
     48, 48, 48, 48, 32, 85, 84, 67, 32, 48, 48, 48, 49, 45, 48, 49, 45, 48, 49, 32, 48,
     48, 58, 48, 48, 58, 48, 48, 32, 43, 48, 48, 48, 48, 32, 85, 84, 67, 32, 48, 48, 48,
     49, 45, 48, 49, 45, 48, 49, 32, 48, 48, 58, 48, 48, 58, 48, 48, 32, 43, 48, 48, 48,
     48, 32, 85, 84, 67, 32, 49, 46, 49, 46, 49, 46, 49, 125] :: nat list) = (117::nat)"
  by simp

lemma second_pad:
  "pad
     [123, 97, 46, 105, 111, 32, 32, 91, 99, 46, 105, 111, 32, 98, 46, 105, 111, 93, 32,
     48, 48, 48, 49, 45, 48, 49, 45, 48, 49, 32, 48, 48, 58, 48, 48, 58, 48, 48, 32, 43,
     48, 48, 48, 48, 32, 85, 84, 67, 32, 48, 48, 48, 49, 45, 48, 49, 45, 48, 49, 32, 48,
     48, 58, 48, 48, 58, 48, 48, 32, 43, 48, 48, 48, 48, 32, 85, 84, 67, 32, 48, 48, 48,
     49, 45, 48, 49, 45, 48, 49, 32, 48, 48, 58, 48, 48, 58, 48, 48, 32, 43, 48, 48, 48,
     48, 32, 85, 84, 67, 32, 49, 46, 49, 46, 49, 46, 49, 125] =
     [123, 97, 46, 105, 111, 32, 32, 91, 99, 46, 105, 111, 32, 98, 46, 105, 111, 93, 32,
     48, 48, 48, 49, 45, 48, 49, 45, 48, 49, 32, 48, 48, 58, 48, 48, 58, 48, 48, 32, 43,
     48, 48, 48, 48, 32, 85, 84, 67, 32, 48, 48, 48, 49, 45, 48, 49, 45, 48, 49, 32, 48,
     48, 58, 48, 48, 58, 48, 48, 32, 43, 48, 48, 48, 48, 32, 85, 84, 67, 32, 48, 48, 48,
     49, 45, 48, 49, 45, 48, 49, 32, 48, 48, 58, 48, 48, 58, 48, 48, 32, 43, 48, 48, 48,
     48, 32, 85, 84, 67, 32, 49, 46, 49, 46, 49, 46, 49, 125, 128, 0, 0, 0, 0, 0, 0, 0, 0,
     3, 168]"
  by (simp add: pad_eval [OF second_length] replicate_numeral_Cons be_bytes_8)

lemma second_block_1:
  "compress H0
     [123, 97, 46, 105, 111, 32, 32, 91, 99, 46, 105, 111, 32, 98, 46, 105, 111, 93, 32,
     48, 48, 48, 49, 45, 48, 49, 45, 48, 49, 32, 48, 48, 58, 48, 48, 58, 48, 48, 32, 43,
     48, 48, 48, 48, 32, 85, 84, 67, 32, 48, 48, 48, 49, 45, 48, 49, 45, 48, 49, 32, 48,
     48, 58, 48] =
     [1540639356, 268467414, 778710217, 1714152296, 3746134510, 183802483, 1371565448,
     1526257355]"
  by (simp add: compress_def K256_def H0_def sched_word_def add32_def ssig0_def ssig1_def
              bsig0_def bsig1_def ch_def maj_def T1_def T2_def step_def rotr_def be32_def)

lemma second_block_2:
  "compress 
     [1540639356, 268467414, 778710217, 1714152296, 3746134510, 183802483, 1371565448,
     1526257355]
     [48, 58, 48, 48, 32, 43, 48, 48, 48, 48, 32, 85, 84, 67, 32, 48, 48, 48, 49, 45, 48,
     49, 45, 48, 49, 32, 48, 48, 58, 48, 48, 58, 48, 48, 32, 43, 48, 48, 48, 48, 32, 85,
     84, 67, 32, 49, 46, 49, 46, 49, 46, 49, 125, 128, 0, 0, 0, 0, 0, 0, 0, 0, 3, 168] =
     [1474557901, 2311441963, 2655953401, 209772729, 1084265580, 4015277446, 4117581595,
     4072561230]"
  by (simp add: compress_def K256_def H0_def sched_word_def add32_def ssig0_def ssig1_def
              bsig0_def bsig1_def ch_def maj_def T1_def T2_def step_def rotr_def be32_def)

lemma second_blocks:
  "blocks H0
     [123, 97, 46, 105, 111, 32, 32, 91, 99, 46, 105, 111, 32, 98, 46, 105, 111, 93, 32,
     48, 48, 48, 49, 45, 48, 49, 45, 48, 49, 32, 48, 48, 58, 48, 48, 58, 48, 48, 32, 43,
     48, 48, 48, 48, 32, 85, 84, 67, 32, 48, 48, 48, 49, 45, 48, 49, 45, 48, 49, 32, 48,
     48, 58, 48, 48, 58, 48, 48, 32, 43, 48, 48, 48, 48, 32, 85, 84, 67, 32, 48, 48, 48,
     49, 45, 48, 49, 45, 48, 49, 32, 48, 48, 58, 48, 48, 58, 48, 48, 32, 43, 48, 48, 48,
     48, 32, 85, 84, 67, 32, 49, 46, 49, 46, 49, 46, 49, 125, 128, 0, 0, 0, 0, 0, 0, 0, 0,
     3, 168] =
     [1474557901, 2311441963, 2655953401, 209772729, 1084265580, 4015277446, 4117581595,
     4072561230]"
  by (simp add: second_block_1 second_block_2)

lemma second_digest:
  "fmt_hex (Sum256 (map of_char ''{a.io  [c.io b.io] 0001-01-01 00:00:00 +0000 UTC 0001-01-01 00:00:00 +0000 UTC 0001-01-01 00:00:00 +0000 UTC 1.1.1.1}''))
     = ''57e3f7cd89c5ce2b9e4ea1f90c80e0b940a0946cef544586f56d4f1bf2be5a4e''"
  unfolding second_bytes Sum256_def second_pad second_blocks
  by (simp add: be_bytes_4 fmt_hex_def hex_byte_def)

lemma utc_bytes:
  "map of_char ''{a.io  [b.io c.io] 2020-01-01 00:00:00 +0000 UTC 0001-01-01 00:00:00 +0000 UTC 0001-01-01 00:00:00 +0000 UTC 1.1.1.1}'' =
     [123, 97, 46, 105, 111, 32, 32, 91, 98, 46, 105, 111, 32, 99, 46, 105, 111, 93, 32,
     50, 48, 50, 48, 45, 48, 49, 45, 48, 49, 32, 48, 48, 58, 48, 48, 58, 48, 48, 32, 43,
     48, 48, 48, 48, 32, 85, 84, 67, 32, 48, 48, 48, 49, 45, 48, 49, 45, 48, 49, 32, 48,
     48, 58, 48, 48, 58, 48, 48, 32, 43, 48, 48, 48, 48, 32, 85, 84, 67, 32, 48, 48, 48,
     49, 45, 48, 49, 45, 48, 49, 32, 48, 48, 58, 48, 48, 58, 48, 48, 32, 43, 48, 48, 48,
     48, 32, 85, 84, 67, 32, 49, 46, 49, 46, 49, 46, 49, 125]"
  by simp

lemma utc_length:
  "length
     ([123, 97, 46, 105, 111, 32, 32, 91, 98, 46, 105, 111, 32, 99, 46, 105, 111, 93, 32,
     50, 48, 50, 48, 45, 48, 49, 45, 48, 49, 32, 48, 48, 58, 48, 48, 58, 48, 48, 32, 43,
     48, 48, 48, 48, 32, 85, 84, 67, 32, 48, 48, 48, 49, 45, 48, 49, 45, 48, 49, 32, 48,
     48, 58, 48, 48, 58, 48, 48, 32, 43, 48, 48, 48, 48, 32, 85, 84, 67, 32, 48, 48, 48,
     49, 45, 48, 49, 45, 48, 49, 32, 48, 48, 58, 48, 48, 58, 48, 48, 32, 43, 48, 48, 48,
     48, 32, 85, 84, 67, 32, 49, 46, 49, 46, 49, 46, 49, 125] :: nat list) = (117::nat)"
  by simp

lemma utc_pad:
  "pad
     [123, 97, 46, 105, 111, 32, 32, 91, 98, 46, 105, 111, 32, 99, 46, 105, 111, 93, 32,
     50, 48, 50, 48, 45, 48, 49, 45, 48, 49, 32, 48, 48, 58, 48, 48, 58, 48, 48, 32, 43,
     48, 48, 48, 48, 32, 85, 84, 67, 32, 48, 48, 48, 49, 45, 48, 49, 45, 48, 49, 32, 48,
     48, 58, 48, 48, 58, 48, 48, 32, 43, 48, 48, 48, 48, 32, 85, 84, 67, 32, 48, 48, 48,
     49, 45, 48, 49, 45, 48, 49, 32, 48, 48, 58, 48, 48, 58, 48, 48, 32, 43, 48, 48, 48,
     48, 32, 85, 84, 67, 32, 49, 46, 49, 46, 49, 46, 49, 125] =
     [123, 97, 46, 105, 111, 32, 32, 91, 98, 46, 105, 111, 32, 99, 46, 105, 111, 93, 32,
     50, 48, 50, 48, 45, 48, 49, 45, 48, 49, 32, 48, 48, 58, 48, 48, 58, 48, 48, 32, 43,
     48, 48, 48, 48, 32, 85, 84, 67, 32, 48, 48, 48, 49, 45, 48, 49, 45, 48, 49, 32, 48,
     48, 58, 48, 48, 58, 48, 48, 32, 43, 48, 48, 48, 48, 32, 85, 84, 67, 32, 48, 48, 48,
     49, 45, 48, 49, 45, 48, 49, 32, 48, 48, 58, 48, 48, 58, 48, 48, 32, 43, 48, 48, 48,
     48, 32, 85, 84, 67, 32, 49, 46, 49, 46, 49, 46, 49, 125, 128, 0, 0, 0, 0, 0, 0, 0, 0,
     3, 168]"
  by (simp add: pad_eval [OF utc_length] replicate_numeral_Cons be_bytes_8)

lemma utc_block_1:
  "compress H0
     [123, 97, 46, 105, 111, 32, 32, 91, 98, 46, 105, 111, 32, 99, 46, 105, 111, 93, 32,
     50, 48, 50, 48, 45, 48, 49, 45, 48, 49, 32, 48, 48, 58, 48, 48, 58, 48, 48, 32, 43,
     48, 48, 48, 48, 32, 85, 84, 67, 32, 48, 48, 48, 49, 45, 48, 49, 45, 48, 49, 32, 48,
     48, 58, 48] =
     [2230542864, 1008512458, 4058084007, 1735276797, 240622986, 2653967829, 1269968678,
     678581447]"
  by (simp add: compress_def K256_def H0_def sched_word_def add32_def ssig0_def ssig1_def
              bsig0_def bsig1_def ch_def maj_def T1_def T2_def step_def rotr_def be32_def)

lemma utc_block_2:
  "compress 
     [2230542864, 1008512458, 4058084007, 1735276797, 240622986, 2653967829, 1269968678,
     678581447]
     [48, 58, 48, 48, 32, 43, 48, 48, 48, 48, 32, 85, 84, 67, 32, 48, 48, 48, 49, 45, 48,
     49, 45, 48, 49, 32, 48, 48, 58, 48, 48, 58, 48, 48, 32, 43, 48, 48, 48, 48, 32, 85,
     84, 67, 32, 49, 46, 49, 46, 49, 46, 49, 125, 128, 0, 0, 0, 0, 0, 0, 0, 0, 3, 168] =
     [2597862283, 2676927103, 43275314, 2606617214, 3528686789, 3657143609, 2814509309,
     3722624330]"
  by (simp add: compress_def K256_def H0_def sched_word_def add32_def ssig0_def ssig1_def
              bsig0_def bsig1_def ch_def maj_def T1_def T2_def step_def rotr_def be32_def)

lemma utc_blocks:
  "blocks H0
     [123, 97, 46, 105, 111, 32, 32, 91, 98, 46, 105, 111, 32, 99, 46, 105, 111, 93, 32,
     50, 48, 50, 48, 45, 48, 49, 45, 48, 49, 32, 48, 48, 58, 48, 48, 58, 48, 48, 32, 43,
     48, 48, 48, 48, 32, 85, 84, 67, 32, 48, 48, 48, 49, 45, 48, 49, 45, 48, 49, 32, 48,
     48, 58, 48, 48, 58, 48, 48, 32, 43, 48, 48, 48, 48, 32, 85, 84, 67, 32, 48, 48, 48,
     49, 45, 48, 49, 45, 48, 49, 32, 48, 48, 58, 48, 48, 58, 48, 48, 32, 43, 48, 48, 48,
     48, 32, 85, 84, 67, 32, 49, 46, 49, 46, 49, 46, 49, 125, 128, 0, 0, 0, 0, 0, 0, 0, 0,
     3, 168] =
     [2597862283, 2676927103, 43275314, 2606617214, 3528686789, 3657143609, 2814509309,
     3722624330]"
  by (simp add: utc_block_1 utc_block_2)

lemma utc_digest:
  "fmt_hex (Sum256 (map of_char ''{a.io  [b.io c.io] 2020-01-01 00:00:00 +0000 UTC 0001-01-01 00:00:00 +0000 UTC 0001-01-01 00:00:00 +0000 UTC 1.1.1.1}''))
     = ''9ad83b8b9f8eaa7f029454329b5dd27ed2537cc5d9fb9539a7c200fddde2bd4a''"
  unfolding utc_bytes Sum256_def utc_pad utc_blocks
  by (simp add: be_bytes_4 fmt_hex_def hex_byte_def)

lemma offset_bytes:
  "map of_char ''{a.io  [b.io c.io] 2020-01-01 05:30:00 +0530 +0530 0001-01-01 00:00:00 +0000 UTC 0001-01-01 00:00:00 +0000 UTC 1.1.1.1}'' =
     [123, 97, 46, 105, 111, 32, 32, 91, 98, 46, 105, 111, 32, 99, 46, 105, 111, 93, 32,
     50, 48, 50, 48, 45, 48, 49, 45, 48, 49, 32, 48, 53, 58, 51, 48, 58, 48, 48, 32, 43,
     48, 53, 51, 48, 32, 43, 48, 53, 51, 48, 32, 48, 48, 48, 49, 45, 48, 49, 45, 48, 49,
     32, 48, 48, 58, 48, 48, 58, 48, 48, 32, 43, 48, 48, 48, 48, 32, 85, 84, 67, 32, 48,
     48, 48, 49, 45, 48, 49, 45, 48, 49, 32, 48, 48, 58, 48, 48, 58, 48, 48, 32, 43, 48,
     48, 48, 48, 32, 85, 84, 67, 32, 49, 46, 49, 46, 49, 46, 49, 125]"
  by simp

lemma offset_length:
  "length
     ([123, 97, 46, 105, 111, 32, 32, 91, 98, 46, 105, 111, 32, 99, 46, 105, 111, 93, 32,
     50, 48, 50, 48, 45, 48, 49, 45, 48, 49, 32, 48, 53, 58, 51, 48, 58, 48, 48, 32, 43,
     48, 53, 51, 48, 32, 43, 48, 53, 51, 48, 32, 48, 48, 48, 49, 45, 48, 49, 45, 48, 49,
     32, 48, 48, 58, 48, 48, 58, 48, 48, 32, 43, 48, 48, 48, 48, 32, 85, 84, 67, 32, 48,
     48, 48, 49, 45, 48, 49, 45, 48, 49, 32, 48, 48, 58, 48, 48, 58, 48, 48, 32, 43, 48,
     48, 48, 48, 32, 85, 84, 67, 32, 49, 46, 49, 46, 49, 46, 49, 125] :: nat list) = (119::nat)"
  by simp

lemma offset_pad:
  "pad
     [123, 97, 46, 105, 111, 32, 32, 91, 98, 46, 105, 111, 32, 99, 46, 105, 111, 93, 32,
     50, 48, 50, 48, 45, 48, 49, 45, 48, 49, 32, 48, 53, 58, 51, 48, 58, 48, 48, 32, 43,
     48, 53, 51, 48, 32, 43, 48, 53, 51, 48, 32, 48, 48, 48, 49, 45, 48, 49, 45, 48, 49,
     32, 48, 48, 58, 48, 48, 58, 48, 48, 32, 43, 48, 48, 48, 48, 32, 85, 84, 67, 32, 48,
     48, 48, 49, 45, 48, 49, 45, 48, 49, 32, 48, 48, 58, 48, 48, 58, 48, 48, 32, 43, 48,
     48, 48, 48, 32, 85, 84, 67, 32, 49, 46, 49, 46, 49, 46, 49, 125] =
     [123, 97, 46, 105, 111, 32, 32, 91, 98, 46, 105, 111, 32, 99, 46, 105, 111, 93, 32,
     50, 48, 50, 48, 45, 48, 49, 45, 48, 49, 32, 48, 53, 58, 51, 48, 58, 48, 48, 32, 43,
     48, 53, 51, 48, 32, 43, 48, 53, 51, 48, 32, 48, 48, 48, 49, 45, 48, 49, 45, 48, 49,
     32, 48, 48, 58, 48, 48, 58, 48, 48, 32, 43, 48, 48, 48, 48, 32, 85, 84, 67, 32, 48,
     48, 48, 49, 45, 48, 49, 45, 48, 49, 32, 48, 48, 58, 48, 48, 58, 48, 48, 32, 43, 48,
     48, 48, 48, 32, 85, 84, 67, 32, 49, 46, 49, 46, 49, 46, 49, 125, 128, 0, 0, 0, 0, 0,
     0, 3, 184]"
  by (simp add: pad_eval [OF offset_length] replicate_numeral_Cons be_bytes_8)

lemma offset_block_1:
  "compress H0
     [123, 97, 46, 105, 111, 32, 32, 91, 98, 46, 105, 111, 32, 99, 46, 105, 111, 93, 32,
     50, 48, 50, 48, 45, 48, 49, 45, 48, 49, 32, 48, 53, 58, 51, 48, 58, 48, 48, 32, 43,
     48, 53, 51, 48, 32, 43, 48, 53, 51, 48, 32, 48, 48, 48, 49, 45, 48, 49, 45, 48, 49,
     32, 48, 48] =
     [803109304, 2097674374, 3149662779, 773209501, 853491228, 3264168534, 2629040790,
     1919629615]"
  by (simp add: compress_def K256_def H0_def sched_word_def add32_def ssig0_def ssig1_def
              bsig0_def bsig1_def ch_def maj_def T1_def T2_def step_def rotr_def be32_def)

lemma offset_block_2:
  "compress 
     [803109304, 2097674374, 3149662779, 773209501, 853491228, 3264168534, 2629040790,
     1919629615]
     [58, 48, 48, 58, 48, 48, 32, 43, 48, 48, 48, 48, 32, 85, 84, 67, 32, 48, 48, 48, 49,
     45, 48, 49, 45, 48, 49, 32, 48, 48, 58, 48, 48, 58, 48, 48, 32, 43, 48, 48, 48, 48,
     32, 85, 84, 67, 32, 49, 46, 49, 46, 49, 46, 49, 125, 128, 0, 0, 0, 0, 0, 0, 3, 184] =
     [2095832020, 1552391182, 2136387302, 1409023474, 2711470620, 616258326, 1000472701,
     974426327]"
  by (simp add: compress_def K256_def H0_def sched_word_def add32_def ssig0_def ssig1_def
              bsig0_def bsig1_def ch_def maj_def T1_def T2_def step_def rotr_def be32_def)

lemma offset_blocks:
  "blocks H0
     [123, 97, 46, 105, 111, 32, 32, 91, 98, 46, 105, 111, 32, 99, 46, 105, 111, 93, 32,
     50, 48, 50, 48, 45, 48, 49, 45, 48, 49, 32, 48, 53, 58, 51, 48, 58, 48, 48, 32, 43,
     48, 53, 51, 48, 32, 43, 48, 53, 51, 48, 32, 48, 48, 48, 49, 45, 48, 49, 45, 48, 49,
     32, 48, 48, 58, 48, 48, 58, 48, 48, 32, 43, 48, 48, 48, 48, 32, 85, 84, 67, 32, 48,
     48, 48, 49, 45, 48, 49, 45, 48, 49, 32, 48, 48, 58, 48, 48, 58, 48, 48, 32, 43, 48,
     48, 48, 48, 32, 85, 84, 67, 32, 49, 46, 49, 46, 49, 46, 49, 125, 128, 0, 0, 0, 0, 0,
     0, 3, 184] =
     [2095832020, 1552391182, 2136387302, 1409023474, 2711470620, 616258326, 1000472701,
     974426327]"
  by (simp add: offset_block_1 offset_block_2)

lemma offset_digest:
  "fmt_hex (Sum256 (map of_char ''{a.io  [b.io c.io] 2020-01-01 05:30:00 +0530 +0530 0001-01-01 00:00:00 +0000 UTC 0001-01-01 00:00:00 +0000 UTC 1.1.1.1}''))
     = ''7cebdbd45c879c0e7f56aee653fbfdf2a19dc21c24bb5b163ba2007d3a1490d7''"
  unfolding offset_bytes Sum256_def offset_pad offset_blocks
  by (simp add: be_bytes_4 fmt_hex_def hex_byte_def)

section \<open>Fingerprints\<close>

lemma digits_known:
  "digits 0 = ''0''" "digits (Suc 0) = ''1''" "digits 5 = ''5''" "digits 30 = ''30''"
  "digits 2020 = ''2020''"
  by (simp_all add: digits.simps)

text \<open>The conversion of day numbers at some known dates.\<close>

lemma civil_from_days_known:
  "civil_from_days (- 719162) = (1, 1, 1)"
  "civil_from_days 0 = (1970, 1, 1)"
  "civil_from_days 11016 = (2000, 2, 29)"
  "civil_from_days 18262 = (2020, 1, 1)"
  "civil_from_days 19357 = (2022, 12, 31)"
  unfolding civil_from_days_def Let_def by simp_all

lemma Time_String_zero: "Time_String zero_Time = ''0001-01-01 00:00:00 +0000 UTC''"
  unfolding Time_String_def Let_def
  by (simp add: zero_Time_def civil_from_days_known appendInt_def zero_pad_def digits_known
                fraction_def offset_hhmm_def signed_divide_int_def replicate_numeral_Cons)

lemma Time_String_utc: "Time_String new_year_utc = ''2020-01-01 00:00:00 +0000 UTC''"
  unfolding Time_String_def Let_def
  by (simp add: new_year_utc_def civil_from_days_known appendInt_def zero_pad_def digits_known
                fraction_def offset_hhmm_def signed_divide_int_def replicate_numeral_Cons)

lemma Time_String_0530: "Time_String new_year_0530 = ''2020-01-01 05:30:00 +0530 +0530''"
  unfolding Time_String_def Let_def
  by (simp add: new_year_0530_def civil_from_days_known appendInt_def zero_pad_def digits_known
                fraction_def offset_hhmm_def signed_divide_int_def replicate_numeral_Cons)

lemma fmt_servers_b_c:
  "fmt_DomainInfo servers_b_c =
     ''{a.io  [b.io c.io] 0001-01-01 00:00:00 +0000 UTC 0001-01-01 00:00:00 +0000 UTC 0001-01-01 00:00:00 +0000 UTC 1.1.1.1}''"
  by (simp add: fmt_DomainInfo_def servers_b_c_def fmt_strings_def Time_String_zero)

lemma fmt_servers_c_b:
  "fmt_DomainInfo servers_c_b =
     ''{a.io  [c.io b.io] 0001-01-01 00:00:00 +0000 UTC 0001-01-01 00:00:00 +0000 UTC 0001-01-01 00:00:00 +0000 UTC 1.1.1.1}''"
  by (simp add: fmt_DomainInfo_def servers_c_b_def servers_b_c_def fmt_strings_def Time_String_zero)

lemma fmt_created_utc:
  "fmt_DomainInfo created_utc =
     ''{a.io  [b.io c.io] 2020-01-01 00:00:00 +0000 UTC 0001-01-01 00:00:00 +0000 UTC 0001-01-01 00:00:00 +0000 UTC 1.1.1.1}''"
  by (simp add: fmt_DomainInfo_def created_utc_def servers_b_c_def fmt_strings_def
                Time_String_zero Time_String_utc)

lemma fmt_created_0530:
  "fmt_DomainInfo created_0530 =
     ''{a.io  [b.io c.io] 2020-01-01 05:30:00 +0530 +0530 0001-01-01 00:00:00 +0000 UTC 0001-01-01 00:00:00 +0000 UTC 1.1.1.1}''"
  by (simp add: fmt_DomainInfo_def created_0530_def servers_b_c_def fmt_strings_def
                Time_String_zero Time_String_0530)

text \<open>
  The claim of C1 as stated fails twice. Two observations that differ in the order of
  the name servers only: the list is rendered in the order given, and the SHA-256 digests
  of the two renderings differ. And two timestamp texts that \<^verbatim>\<open>parseDate\<close> reads as one
  instant, one with the zone \<open>Z\<close> and one with the offset \<open>+05:30\<close>: each time is rendered in
  its own zone, and the digests of the two observations differ.
\<close>

theorem fingerprint_order_and_zone_counterexample:
  "HashDomainInfo servers_b_c = ''feab62001819f29138211d15931a17b0b217547bb17c80faa5fee0b700cc80fd''
   \<and> HashDomainInfo servers_c_b = ''57e3f7cd89c5ce2b9e4ea1f90c80e0b940a0946cef544586f56d4f1bf2be5a4e''
   \<and> HashDomainInfo servers_b_c \<noteq> HashDomainInfo servers_c_b
   \<and> parseDate zone_world ''2020-01-01T00:00:00Z'' = new_year_utc
   \<and> parseDate zone_world ''2020-01-01T05:30:00+05:30'' = new_year_0530
   \<and> unix_sec new_year_utc = unix_sec new_year_0530
   \<and> nsec new_year_utc = nsec new_year_0530
   \<and> HashDomainInfo created_utc = ''9ad83b8b9f8eaa7f029454329b5dd27ed2537cc5d9fb9539a7c200fddde2bd4a''
   \<and> HashDomainInfo created_0530 = ''7cebdbd45c879c0e7f56aee653fbfdf2a19dc21c24bb5b163ba2007d3a1490d7''
   \<and> HashDomainInfo created_utc \<noteq> HashDomainInfo created_0530"
proof -
  have a: "HashDomainInfo servers_b_c
      = ''feab62001819f29138211d15931a17b0b217547bb17c80faa5fee0b700cc80fd''"
    unfolding HashDomainInfo_def fmt_servers_b_c by (rule first_digest)
  have b: "HashDomainInfo servers_c_b
      = ''57e3f7cd89c5ce2b9e4ea1f90c80e0b940a0946cef544586f56d4f1bf2be5a4e''"
    unfolding HashDomainInfo_def fmt_servers_c_b by (rule second_digest)
  have c: "HashDomainInfo created_utc
      = ''9ad83b8b9f8eaa7f029454329b5dd27ed2537cc5d9fb9539a7c200fddde2bd4a''"
    unfolding HashDomainInfo_def fmt_created_utc by (rule utc_digest)
  have d: "HashDomainInfo created_0530
      = ''7cebdbd45c879c0e7f56aee653fbfdf2a19dc21c24bb5b163ba2007d3a1490d7''"
    unfolding HashDomainInfo_def fmt_created_0530 by (rule offset_digest)
  have e: "parseDate zone_world ''2020-01-01T00:00:00Z'' = new_year_utc"
    "parseDate zone_world ''2020-01-01T05:30:00+05:30'' = new_year_0530"
    by (simp_all add: parseDate_def formats_def zone_world_def)
  have f: "unix_sec new_year_utc = unix_sec new_year_0530" "nsec new_year_utc = nsec new_year_0530"
    by (simp_all add: new_year_utc_def new_year_0530_def)
  show ?thesis unfolding a b c d e using f by simp
qed

lemma parseDate_loop_find:
  "parseDate_loop w fs s =
     (case List.find (\<lambda>f. \<not> isl (time_Parse w f s)) fs of
        None \<Rightarrow> zero_Time
      | Some f \<Rightarrow> projr (time_Parse w f s))"
  by (induction fs) (auto split: sum.splits)

lemma date_field_normalized:
  "(if s \<noteq> [] then parseDate w s else zero_Time) = normalized w s"
  by (simp add: normalized_def denotes_def parseDate_def parseDate_loop_find zero_Time_def
           split: option.splits)

text \<open>
  C1, amended. The name-server list is not sorted, and a time is rendered in its own
  zone. What holds: for two WHOIS results with the same registrar name and the same
  name-server list in the same order, in which each timestamp text may differ but
  denotes in both the same instant in the same zone (the time that the first accepted
  layout gives) or is in both absent or unparseable, normalizing and fingerprinting for
  the same domain and address gives equal digests. The digest is the SHA-256, in
  hexadecimal, of the rendering of the normalized fields, name servers in the order
  received.
\<close>

theorem fingerprint_stability:
  assumes "whoisparser_Parse w response1 = Inr result1"
    and "whoisparser_Parse w response2 = Inr result2"
    and "Registrar result1 = Some registrar1"
    and "Registrar result2 = Some registrar2"
    and "Contact_Name registrar1 = Contact_Name registrar2"
    and "Domain_NameServers result1 = Domain_NameServers result2"
    and "denotes w (Domain_CreatedDate result1) = denotes w (Domain_CreatedDate result2)"
    and "denotes w (Domain_ExpirationDate result1) = denotes w (Domain_ExpirationDate result2)"
    and "denotes w (Domain_UpdatedDate result1) = denotes w (Domain_UpdatedDate result2)"
  shows "\<exists>info1 info2. ParseWHOIS w domain response1 = Return (Inr info1)
           \<and> ParseWHOIS w domain response2 = Return (Inr info2)
           \<and> HashDomainInfo (info1\<lparr>IPAddress := ip\<rparr>) = HashDomainInfo (info2\<lparr>IPAddress := ip\<rparr>)
           \<and> HashDomainInfo (info1\<lparr>IPAddress := ip\<rparr>) =
               fmt_hex (Sum256 (map of_char
                 (''{'' @ domain @ '' '' @ Contact_Name registrar1
                  @ '' '' @ fmt_strings (Domain_NameServers result1)
                  @ '' '' @ Time_String (normalized w (Domain_CreatedDate result1))
                  @ '' '' @ Time_String (normalized w (Domain_ExpirationDate result1))
                  @ '' '' @ Time_String (normalized w (Domain_UpdatedDate result1))
                  @ '' '' @ ip @ ''}'')))"
proof -
  let ?info = "\<lambda>result registrar.
      \<lparr>Domain = domain, RegistrarTag = Contact_Name registrar,
       NameServers = Domain_NameServers result,
       CreationDate = normalized w (Domain_CreatedDate result),
       ExpiryDate = normalized w (Domain_ExpirationDate result),
       UpdatedDate = normalized w (Domain_UpdatedDate result),
       IPAddress = []\<rparr>"
  have a: "ParseWHOIS w domain response1 = Return (Inr (?info result1 registrar1))"
    using assms(1,3) by (simp add: ParseWHOIS_def date_field_normalized)
  have b: "ParseWHOIS w domain response2 = Return (Inr (?info result2 registrar2))"
    using assms(2,4) by (simp add: ParseWHOIS_def date_field_normalized)
  have c: "?info result1 registrar1 = ?info result2 registrar2"
    using assms(5-9) by (simp add: normalized_def)
  have d: "HashDomainInfo ((?info result1 registrar1)\<lparr>IPAddress := ip\<rparr>) =
               fmt_hex (Sum256 (map of_char
                 (''{'' @ domain @ '' '' @ Contact_Name registrar1
                  @ '' '' @ fmt_strings (Domain_NameServers result1)
                  @ '' '' @ Time_String (normalized w (Domain_CreatedDate result1))
                  @ '' '' @ Time_String (normalized w (Domain_ExpirationDate result1))
                  @ '' '' @ Time_String (normalized w (Domain_UpdatedDate result1))
                  @ '' '' @ ip @ ''}'')))"
    by (simp add: HashDomainInfo_def fmt_DomainInfo_def)
  from a b c d show ?thesis by simp
qed

theorem fingerprint_stability_witness:
  "''1995-08-14'' \<noteq> ''1995-08-14 00:00:00''
   \<and> denotes example_world ''1995-08-14'' = denotes example_world ''1995-08-14 00:00:00''
   \<and> (\<exists>info1 info2.
          ParseWHOIS example_world ''example.com'' ''raw'' = Return (Inr info1)
        \<and> ParseWHOIS example_world ''example.com'' ''raw, long date'' = Return (Inr info2)
        \<and> HashDomainInfo (info1\<lparr>IPAddress := ''192.0.2.1''\<rparr>)
            = HashDomainInfo (info2\<lparr>IPAddress := ''192.0.2.1''\<rparr>))"
proof -
  have p: "denotes example_world ''1995-08-14'' = denotes example_world ''1995-08-14 00:00:00''"
    by (simp add: denotes_def formats_def RFC3339_def example_world_def)
  have w1: "whoisparser_Parse example_world ''raw'' = Inr (example_whois ''1995-08-14'')"
    by (simp add: example_world_def)
  have w2: "whoisparser_Parse example_world ''raw, long date''
      = Inr (example_whois ''1995-08-14 00:00:00'')"
    by (simp add: example_world_def)
  have r1: "Registrar (example_whois ''1995-08-14'') = Some \<lparr>Contact_Name = ''Example Registrar''\<rparr>"
    by (simp add: example_whois_def)
  have r2: "Registrar (example_whois ''1995-08-14 00:00:00'')
      = Some \<lparr>Contact_Name = ''Example Registrar''\<rparr>"
    by (simp add: example_whois_def)
  have n: "Domain_NameServers (example_whois ''1995-08-14'')
      = Domain_NameServers (example_whois ''1995-08-14 00:00:00'')"
    by (simp add: example_whois_def)
  have c: "denotes example_world (Domain_CreatedDate (example_whois ''1995-08-14''))
      = denotes example_world (Domain_CreatedDate (example_whois ''1995-08-14 00:00:00''))"
    using p by (simp add: example_whois_def)
  have e: "denotes example_world (Domain_ExpirationDate (example_whois ''1995-08-14''))
      = denotes example_world (Domain_ExpirationDate (example_whois ''1995-08-14 00:00:00''))"
    by (simp add: example_whois_def)
  have u: "denotes example_world (Domain_UpdatedDate (example_whois ''1995-08-14''))
      = denotes example_world (Domain_UpdatedDate (example_whois ''1995-08-14 00:00:00''))"
    by (simp add: example_whois_def)
  from fingerprint_stability [OF w1 w2 r1 r2 refl n c e u,
      where domain = "''example.com''" and ip = "''192.0.2.1''"]
  have "\<exists>info1 info2.
          ParseWHOIS example_world ''example.com'' ''raw'' = Return (Inr info1)
        \<and> ParseWHOIS example_world ''example.com'' ''raw, long date'' = Return (Inr info2)
        \<and> HashDomainInfo (info1\<lparr>IPAddress := ''192.0.2.1''\<rparr>)
            = HashDomainInfo (info2\<lparr>IPAddress := ''192.0.2.1''\<rparr>)"
    by blast
  with p show ?thesis by simp
qed

end
